theory Spec2Isabelle
  imports Complex_Main
begin

section \<open>Values of the JavaScript runtime\<close>

text \<open>
  The service is an Express application over MongoDB. Request bodies are the values
  \<open>express.json()\<close> produces, stored documents are such values plus dates. A JavaScript
  number is a double: every finite double is a rational, so \<open>Fin q\<close> holds its exact
  value, and comparisons and \<open>Number.isInteger\<close> on doubles are the ones on rationals
  (minus zero is not told from zero: no check of the schemas does). A string is a list
  of code units (here 8-bit characters); \<open>undefined\<close> is the \<open>None\<close> of an option.
\<close>

datatype jsnum = NaN | PosInf | NegInf | Fin rat

datatype json =
    JNull
  | JBool bool
  | JNum jsnum
  | JStr string
  | JArr "json list"
  | JObj "(string \<times> json) list"
  | JDate int

text \<open>An \<open>Error\<close> object with the two properties the error handler of server.js reads.\<close>

record js_error =
  message :: string
  statusCode :: "nat option"
  expose :: "bool option"

text \<open>
  What the platform decides and the repository does not: the year the router module
  read from the clock when it was loaded (\<open>new Date().getFullYear()\<close>), JavaScript's
  string-to-number conversion, the conversion of an array or object to a number
  (\<open>None\<close> when \<open>ToPrimitive\<close> throws a TypeError), and the two string formats zod
  checks with a regular expression and with \<open>new URL\<close>. Every theorem holds for all
  of them.
\<close>

record runtime =
  currentYear :: int
  StringToNumber :: "string \<Rightarrow> jsnum"
  ObjectToNumber :: "json \<Rightarrow> jsnum option"
  isEmail :: "string \<Rightarrow> bool"
  isURL :: "string \<Rightarrow> bool"

text \<open>\<open>Number(x)\<close>, as \<open>z.coerce.number()\<close> applies it to its input.\<close>

fun Number :: "runtime \<Rightarrow> json option \<Rightarrow> jsnum option" where
  "Number rt None = Some NaN"
| "Number rt (Some JNull) = Some (Fin 0)"
| "Number rt (Some (JBool b)) = Some (Fin (if b then 1 else 0))"
| "Number rt (Some (JNum n)) = Some n"
| "Number rt (Some (JStr s)) = Some (StringToNumber rt s)"
| "Number rt (Some (JArr xs)) = ObjectToNumber rt (JArr xs)"
| "Number rt (Some (JObj kvs)) = ObjectToNumber rt (JObj kvs)"
| "Number rt (Some (JDate t)) = Some (Fin (of_int t))"

definition isInteger :: "jsnum \<Rightarrow> bool" where
  "isInteger n = (case n of Fin q \<Rightarrow> q = of_int \<lfloor>q\<rfloor> | _ \<Rightarrow> False)"

text \<open>\<open>a < b\<close> on numbers; a comparison with \<open>NaN\<close> is false.\<close>

fun num_less :: "jsnum \<Rightarrow> jsnum \<Rightarrow> bool" where
  "num_less NaN _ = False"
| "num_less _ NaN = False"
| "num_less (Fin a) (Fin b) = (a < b)"
| "num_less NegInf NegInf = False"
| "num_less NegInf _ = True"
| "num_less _ NegInf = False"
| "num_less PosInf _ = False"
| "num_less _ PosInf = True"

definition isWhiteSpace :: "char \<Rightarrow> bool" where
  "isWhiteSpace c = (of_char c \<in> {9, 10, 11, 12, 13, 32, 160 :: nat})"

definition trim :: "string \<Rightarrow> string" where
  "trim s = rev (dropWhile isWhiteSpace (rev (dropWhile isWhiteSpace s)))"

definition isHexDigit :: "char \<Rightarrow> bool" where
  "isHexDigit c = (let n = (of_char c :: nat) in
     (48 \<le> n \<and> n \<le> 57) \<or> (97 \<le> n \<and> n \<le> 102) \<or> (65 \<le> n \<and> n \<le> 70))"

text \<open>The regular expression \<open>/^[0-9a-fA-F]{24}$/\<close> of watchlists.js.\<close>

definition hex24 :: "string \<Rightarrow> bool" where
  "hex24 s = (length s = 24 \<and> list_all isHexDigit s)"

section \<open>The zod schemas\<close>

text \<open>
  The routers declare their payloads with zod combinators (zod 3: the handlers call
  \<open>z.coerce\<close> and \<open>err.flatten()\<close>). Each combinator the source
  uses is a constructor here, and \<open>parse_t\<close> is zod's parser for it: it returns the
  issues it reported at and below a path, with the output value (\<open>None\<close> for
  \<open>undefined\<close>, also when the value was refused), or the error it threw. zod reports
  issues with a code and a message; the message follows from the code and is left out.
\<close>

datatype path_elem = Key string | Idx nat

datatype issue_code = invalid_type | too_small | too_big | invalid_enum_value | invalid_string

type_synonym issue = "path_elem list \<times> issue_code"

datatype string_check = StrTrim | StrMin nat | StrMax nat | StrEmail | StrUrl | StrRegexHex24

datatype number_check = NumInt | NumMin rat | NumMax rat

datatype ztype =
    ZodString "string_check list"
  | ZodNumber bool "number_check list"
  | ZodEnum "string list"
  | ZodArray ztype "nat option"
  | ZodOptional ztype
  | ZodDefault ztype json

definition string_check_step ::
  "runtime \<Rightarrow> path_elem list \<Rightarrow> string_check \<Rightarrow> string \<Rightarrow> issue list \<times> string" where
  "string_check_step rt p c s = (case c of
      StrTrim \<Rightarrow> ([], trim s)
    | StrMin n \<Rightarrow> (if length s < n then [(p, too_small)] else [], s)
    | StrMax n \<Rightarrow> (if n < length s then [(p, too_big)] else [], s)
    | StrEmail \<Rightarrow> (if isEmail rt s then [] else [(p, invalid_string)], s)
    | StrUrl \<Rightarrow> (if isURL rt s then [] else [(p, invalid_string)], s)
    | StrRegexHex24 \<Rightarrow> (if hex24 s then [] else [(p, invalid_string)], s))"

fun string_checks ::
  "runtime \<Rightarrow> path_elem list \<Rightarrow> string_check list \<Rightarrow> string \<Rightarrow> issue list \<times> string" where
  "string_checks rt p [] s = ([], s)"
| "string_checks rt p (c # cs) s =
     (case string_check_step rt p c s of (is1, s1) \<Rightarrow>
        (case string_checks rt p cs s1 of (is2, s2) \<Rightarrow> (is1 @ is2, s2)))"

definition number_check_issues :: "path_elem list \<Rightarrow> jsnum \<Rightarrow> number_check \<Rightarrow> issue list" where
  "number_check_issues p n c = (case c of
      NumInt \<Rightarrow> (if isInteger n then [] else [(p, invalid_type)])
    | NumMin q \<Rightarrow> (if num_less n (Fin q) then [(p, too_small)] else [])
    | NumMax q \<Rightarrow> (if num_less (Fin q) n then [(p, too_big)] else []))"

definition number_checks ::
  "path_elem list \<Rightarrow> number_check list \<Rightarrow> jsnum \<Rightarrow> issue list \<times> json option" where
  "number_checks p cs n =
     (if n = NaN then ([(p, invalid_type)], None)
      else (concat (map (number_check_issues p n) cs), Some (JNum n)))"

definition TypeError :: js_error where
  "TypeError = \<lparr>message = ''Cannot convert object to primitive value'',
                 statusCode = None, expose = None\<rparr>"

fun parse_t ::
    "runtime \<Rightarrow> ztype \<Rightarrow> path_elem list \<Rightarrow> json option \<Rightarrow> js_error + (issue list \<times> json option)"
  and parse_elems ::
    "runtime \<Rightarrow> ztype \<Rightarrow> path_elem list \<Rightarrow> nat \<Rightarrow> json list
      \<Rightarrow> js_error + (issue list \<times> json option list)" where
  "parse_t rt (ZodString cs) p input = (case input of
      Some (JStr s) \<Rightarrow> (case string_checks rt p cs s of (is, s') \<Rightarrow> Inr (is, Some (JStr s')))
    | _ \<Rightarrow> Inr ([(p, invalid_type)], None))"
| "parse_t rt (ZodNumber coerce cs) p input =
     (if coerce then (case Number rt input of
          None \<Rightarrow> Inl TypeError
        | Some n \<Rightarrow> Inr (number_checks p cs n))
      else (case input of
          Some (JNum n) \<Rightarrow> Inr (number_checks p cs n)
        | _ \<Rightarrow> Inr ([(p, invalid_type)], None)))"
| "parse_t rt (ZodEnum vs) p input = (case input of
      Some (JStr s) \<Rightarrow> (if s \<in> set vs then Inr ([], Some (JStr s))
                        else Inr ([(p, invalid_enum_value)], None))
    | _ \<Rightarrow> Inr ([(p, invalid_type)], None))"
| "parse_t rt (ZodArray t mn) p input = (case input of
      Some (JArr xs) \<Rightarrow> (case parse_elems rt t p 0 xs of
          Inl e \<Rightarrow> Inl e
        | Inr (is, vs) \<Rightarrow>
            Inr ((case mn of Some n \<Rightarrow> (if length xs < n then [(p, too_small)] else [])
                           | None \<Rightarrow> []) @ is,
                 map_option JArr (those vs)))
    | _ \<Rightarrow> Inr ([(p, invalid_type)], None))"
| "parse_t rt (ZodOptional t) p input = (case input of
      None \<Rightarrow> Inr ([], None)
    | Some v \<Rightarrow> parse_t rt t p (Some v))"
| "parse_t rt (ZodDefault t d) p input =
     parse_t rt t p (Some (case input of None \<Rightarrow> d | Some v \<Rightarrow> v))"
| "parse_elems rt t p i [] = Inr ([], [])"
| "parse_elems rt t p i (x # xs) = (case parse_t rt t (p @ [Idx i]) (Some x) of
      Inl e \<Rightarrow> Inl e
    | Inr (is1, v) \<Rightarrow> (case parse_elems rt t p (Suc i) xs of
          Inl e \<Rightarrow> Inl e
        | Inr (is2, vs) \<Rightarrow> Inr (is1 @ is2, v # vs)))"

text \<open>
  \<open>z.object(shape).parse(body)\<close>. Every key of the shape is parsed, in the order of
  the declaration, before the results are merged, so the issues of all fields are
  collected; keys of the body that the shape does not declare are dropped (zod's
  default for unknown keys is to strip them); a key whose output is \<open>undefined\<close> is
  not set. \<open>parse\<close> returns the output, or throws a \<open>ZodError\<close> holding the issues, or
  lets the TypeError of a coercion through.
\<close>

type_synonym zobject = "(string \<times> ztype) list"

fun parse_shape ::
  "runtime \<Rightarrow> zobject \<Rightarrow> (string \<Rightarrow> json option)
    \<Rightarrow> js_error + (issue list \<times> (string \<times> json) list)" where
  "parse_shape rt [] data = Inr ([], [])"
| "parse_shape rt ((k, t) # sh) data = (case parse_t rt t [Key k] (data k) of
      Inl e \<Rightarrow> Inl e
    | Inr (is1, v) \<Rightarrow> (case parse_shape rt sh data of
          Inl e \<Rightarrow> Inl e
        | Inr (is2, out) \<Rightarrow>
            Inr (is1 @ is2, (case v of None \<Rightarrow> out | Some x \<Rightarrow> (k, x) # out))))"

datatype parse_result = Parsed "(string \<times> json) list" | ZodError "issue list" | Thrown js_error

definition parse :: "runtime \<Rightarrow> zobject \<Rightarrow> json \<Rightarrow> parse_result" where
  "parse rt sh body = (case body of
      JObj kvs \<Rightarrow> (case parse_shape rt sh (map_of kvs) of
          Inl e \<Rightarrow> Thrown e
        | Inr (is, out) \<Rightarrow> (if is = [] then Parsed out else ZodError is))
    | _ \<Rightarrow> ZodError [([], invalid_type)])"

text \<open>
  \<open>err.flatten()\<close>: the issues at the root go to \<open>formErrors\<close>, every other issue to
  the entry of \<open>fieldErrors\<close> named by the first element of its path.
\<close>

record flattened =
  formErrors :: "issue_code list"
  fieldErrors :: "(path_elem \<times> issue_code list) list"

fun add_fieldError ::
  "path_elem \<Rightarrow> issue_code \<Rightarrow> (path_elem \<times> issue_code list) list
    \<Rightarrow> (path_elem \<times> issue_code list) list" where
  "add_fieldError k c [] = [(k, [c])]"
| "add_fieldError k c ((k', cs) # fe) =
     (if k' = k then (k', cs @ [c]) # fe else (k', cs) # add_fieldError k c fe)"

fun flatten_into :: "issue list \<Rightarrow> flattened \<Rightarrow> flattened" where
  "flatten_into [] f = f"
| "flatten_into ((p, c) # is) f = flatten_into is (case p of
      [] \<Rightarrow> f\<lparr>formErrors := formErrors f @ [c]\<rparr>
    | k # _ \<Rightarrow> f\<lparr>fieldErrors := add_fieldError k c (fieldErrors f)\<rparr>)"

definition flatten :: "issue list \<Rightarrow> flattened" where
  "flatten is = flatten_into is \<lparr>formErrors = [], fieldErrors = []\<rparr>"

subsection \<open>The four schemas\<close>

definition AnimeSchema :: "runtime \<Rightarrow> zobject" where
  "AnimeSchema rt =
    [(''title'', ZodString [StrTrim, StrMin 1]),
     (''genres'', ZodArray (ZodString [StrTrim, StrMin 1]) (Some 1)),
     (''releaseYear'', ZodNumber True [NumInt, NumMin 1960, NumMax (of_int (currentYear rt + 1))]),
     (''rating'', ZodOptional (ZodNumber True [NumMin 0, NumMax 10])),
     (''episodes'', ZodOptional (ZodNumber True [NumInt, NumMin 0])),
     (''studio'', ZodOptional (ZodString [StrTrim])),
     (''status'', ZodEnum [''finished'', ''airing'', ''upcoming'']),
     (''description'', ZodOptional (ZodString [StrTrim])),
     (''coverImage'', ZodOptional (ZodString [StrUrl]))]"

definition MangaSchema :: "runtime \<Rightarrow> zobject" where
  "MangaSchema rt =
    [(''title'', ZodString [StrTrim, StrMin 1]),
     (''genres'', ZodArray (ZodString [StrTrim, StrMin 1]) (Some 1)),
     (''author'', ZodString [StrTrim, StrMin 1]),
     (''chapters'', ZodOptional (ZodNumber False [NumInt, NumMin 0])),
     (''status'', ZodEnum [''ongoing'', ''finished'', ''hiatus'']),
     (''releaseYear'',
        ZodOptional (ZodNumber False [NumInt, NumMin 1960, NumMax (of_int (currentYear rt + 1))])),
     (''rating'', ZodOptional (ZodNumber False [NumMin 0, NumMax 10])),
     (''description'', ZodOptional (ZodString [StrTrim])),
     (''coverImage'', ZodOptional (ZodString [StrUrl]))]"

definition UserSchema :: zobject where
  "UserSchema =
    [(''email'', ZodString [StrEmail]),
     (''displayName'', ZodString [StrMin 1]),
     (''role'', ZodDefault (ZodEnum [''user'', ''admin'']) (JStr ''user''))]"

definition ObjectIdString :: ztype where
  "ObjectIdString = ZodString [StrRegexHex24]"

definition WatchItemSchema :: zobject where
  "WatchItemSchema =
    [(''userId'', ObjectIdString),
     (''kind'', ZodEnum [''anime'', ''manga'']),
     (''refId'', ObjectIdString),
     (''status'', ZodDefault (ZodEnum [''planned'', ''watching'', ''completed'', ''reading''])
                    (JStr ''planned'')),
     (''notes'', ZodOptional (ZodString [StrMax 500]))]"

section \<open>Identifiers\<close>

definition toLowerCase :: "string \<Rightarrow> string" where
  "toLowerCase s = map (\<lambda>c. let n = (of_char c :: nat) in
      if (65 \<le> n \<and> n \<le> 90) \<or> (192 \<le> n \<and> n \<le> 222 \<and> n \<noteq> 215) then char_of (n + 32) else c) s"

definition Error :: "string \<Rightarrow> js_error" where
  "Error msg = \<lparr>message = msg, statusCode = None, expose = None\<rparr>"

text \<open>An \<open>ObjectId\<close> holds twelve bytes; it is written as their 24 lower-case hex digits.\<close>

datatype ObjectId = ObjectId string

fun toString :: "ObjectId \<Rightarrow> string" where
  "toString (ObjectId h) = h"

text \<open>
  Modelled from the spec: the constructor \<open>new ObjectId(id)\<close> of the MongoDB driver,
  which the routers import and the repository does not contain. Section 4.1 of the
  specification gives its contract on a string: exactly 24 hexadecimal characters, in
  either case, make an identifier; anything else is refused (the driver throws).
\<close>

definition new_ObjectId :: "string \<Rightarrow> js_error + ObjectId" where
  "new_ObjectId s =
     (if hex24 s then Inr (ObjectId (toLowerCase s))
      else Inl (Error ''input must be a 24 character hex string, 12 byte Uint8Array, or an integer''))"

datatype resource = anime | manga | users | watchlists

definition Schema :: "runtime \<Rightarrow> resource \<Rightarrow> zobject" where
  "Schema rt r = (case r of
      anime \<Rightarrow> AnimeSchema rt
    | manga \<Rightarrow> MangaSchema rt
    | users \<Rightarrow> UserSchema
    | watchlists \<Rightarrow> WatchItemSchema)"

definition collection :: "resource \<Rightarrow> string" where
  "collection r = (case r of
      anime \<Rightarrow> ''anime'' | manga \<Rightarrow> ''manga'' | users \<Rightarrow> ''users'' | watchlists \<Rightarrow> ''watchlists'')"

text \<open>
  \<open>parseId\<close> of each router: whatever the constructor throws is replaced by an error
  with status code 400 that the error handler may show. anime.js and manga.js say
  "Invalid id", users.js and watchlists.js "Invalid id format".
\<close>

definition invalid_id_message :: "resource \<Rightarrow> string" where
  "invalid_id_message r = (case r of
      anime \<Rightarrow> ''Invalid id'' | manga \<Rightarrow> ''Invalid id''
    | users \<Rightarrow> ''Invalid id format'' | watchlists \<Rightarrow> ''Invalid id format'')"

definition parseId :: "resource \<Rightarrow> string \<Rightarrow> js_error + ObjectId" where
  "parseId r raw = (case new_ObjectId raw of
      Inr oid \<Rightarrow> Inr oid
    | Inl _ \<Rightarrow> Inl \<lparr>message = invalid_id_message r, statusCode = Some 400, expose = Some True\<rparr>)"

section \<open>The persistence gateway (connect.js)\<close>

text \<open>
  The module keeps two variables, \<open>client\<close> and \<open>db\<close>. A handle is what
  \<open>client.db(dbName)\<close> returns: it names the client it belongs to and the database.
  \<open>connections\<close> is not a variable of the module but its effect on the world: the
  addresses for which it asked the driver to open a connection, oldest first. Whether
  the server answers \<open>client.connect()\<close> and the ping is the driver's business and a
  parameter here.
\<close>

record Db =
  client_uri :: string
  databaseName :: string

record connect_module =
  client :: "string option"
  db :: "Db option"
  connections :: "string list"

datatype server_answer = up | fails js_error

definition truthy :: "string option \<Rightarrow> bool" where
  "truthy v = (case v of None \<Rightarrow> False | Some s \<Rightarrow> s \<noteq> [])"

definition not_loaded :: connect_module where
  "not_loaded = \<lparr>client = None, db = None, connections = []\<rparr>"

definition connectToDb ::
  "string option \<Rightarrow> string option \<Rightarrow> server_answer \<Rightarrow> connect_module
    \<Rightarrow> (js_error + Db) \<times> connect_module" where
  "connectToDb uri dbName answer m =
     (if \<not> truthy uri then (Inl (Error ''MONGODB_URI missing''), m)
      else if \<not> truthy dbName then (Inl (Error ''DB_NAME missing''), m)
      else (case db m of
          Some h \<Rightarrow> (Inr h, m)
        | None \<Rightarrow>
            (let m1 = m\<lparr>client := uri, connections := connections m @ [the uri]\<rparr> in
             case answer of
               fails e \<Rightarrow> (Inl e, m1)
             | up \<Rightarrow> (let h = \<lparr>client_uri = the uri, databaseName = the dbName\<rparr>
                      in (Inr h, m1\<lparr>db := Some h\<rparr>)))))"

definition getDb :: "connect_module \<Rightarrow> js_error + Db" where
  "getDb m = (case db m of
      None \<Rightarrow> Inl (Error ''DB not initialized. Call connectToDb first.'')
    | Some h \<Rightarrow> Inr h)"

text \<open>A run of calls of \<open>connectToDb\<close>, each with its arguments and the server's answer.\<close>

fun connect_calls ::
  "(string option \<times> string option \<times> server_answer) list \<Rightarrow> connect_module
    \<Rightarrow> (js_error + Db) list \<times> connect_module" where
  "connect_calls [] m = ([], m)"
| "connect_calls ((uri, dbName, answer) # cs) m =
     (case connectToDb uri dbName answer m of (r, m1) \<Rightarrow>
        (case connect_calls cs m1 of (rs, m2) \<Rightarrow> (r # rs, m2)))"

section \<open>The authorization gate (middleware/auth.js)\<close>

text \<open>
  The module reads the environment once, when it is loaded, and exports either the
  middleware of express-oauth2-jwt-bearer or \<open>noop\<close>. What the library's middleware
  answers to a request is a parameter. (The repository also holds the earlier
  version of the module, whose guards are all \<open>noop\<close>; this is the later one.)
\<close>

type_synonym env = "string \<Rightarrow> string option"

definition AUTH_DISABLED :: "env \<Rightarrow> bool" where
  "AUTH_DISABLED e =
     (toLowerCase (case e ''AUTH_DISABLE'' of None \<Rightarrow> [] | Some s \<Rightarrow> s) = ''true'')"

definition hasAuthConfig :: "env \<Rightarrow> bool" where
  "hasAuthConfig e =
     (truthy (e ''AUTH0_AUDIENCE'') \<and>
      (truthy (e ''AUTH0_ISSUER_BASE_URL'') \<or> truthy (e ''AUTH0_DOMAIN'')))"

definition ISSUER_BASE_URL :: "env \<Rightarrow> string option" where
  "ISSUER_BASE_URL e =
     (if truthy (e ''AUTH0_ISSUER_BASE_URL'') then e ''AUTH0_ISSUER_BASE_URL''
      else if truthy (e ''AUTH0_DOMAIN'') then Some (''https://'' @ the (e ''AUTH0_DOMAIN''))
      else None)"

datatype middleware =
    noop
  | auth "string option" "string option" string
  | requiredScopes string

definition jwtCheck :: "env \<Rightarrow> middleware" where
  "jwtCheck e =
     (if hasAuthConfig e \<and> \<not> AUTH_DISABLED e
      then auth (e ''AUTH0_AUDIENCE'') (ISSUER_BASE_URL e) ''RS256''
      else noop)"

definition reqScopes :: "env \<Rightarrow> string \<Rightarrow> middleware" where
  "reqScopes e scopes = (if hasAuthConfig e \<and> \<not> AUTH_DISABLED e then requiredScopes scopes else noop)"

definition needWrite :: "env \<Rightarrow> middleware" where
  "needWrite e = reqScopes e ''write:library''"

definition needRead :: "env \<Rightarrow> middleware" where
  "needRead e = reqScopes e ''read:library''"

section \<open>Requests, responses and the collections\<close>

text \<open>
  A request as the handlers read it: the \<open>:id\<close> segment of the path, whether
  \<open>req.is('application/json')\<close> holds, the body as \<open>express.json()\<close> left it, and the
  \<open>Authorization\<close> header for the gate.
\<close>

record request =
  req_params_id :: string
  req_is_json :: bool
  req_body :: json
  req_authorization :: "string option"

datatype payload =
    no_content
  | message_only string
  | validation_error flattened
  | document ObjectId "(string \<times> json) list"
  | created_id string

record response =
  res_status :: nat
  res_location :: "string option"
  res_body :: payload

text \<open>
  The library's verdict on a request: \<open>None\<close> when its middleware calls \<open>next()\<close>,
  the error when it calls \<open>next(err)\<close>. A middleware hands the request on (\<open>Inr\<close>) or
  an error to the error handler (\<open>Inl\<close>); the handlers read nothing the library adds
  to a request.
\<close>

type_synonym idp = "middleware \<Rightarrow> request \<Rightarrow> js_error option"

definition run_middleware :: "idp \<Rightarrow> middleware \<Rightarrow> request \<Rightarrow> js_error + request" where
  "run_middleware lib m req = (case m of
      noop \<Rightarrow> Inr req
    | _ \<Rightarrow> (case lib m req of None \<Rightarrow> Inr req | Some err \<Rightarrow> Inl err))"

text \<open>The chain \<open>jwtCheck, needWrite\<close> in front of every POST, PUT and DELETE handler.\<close>

definition gate :: "idp \<Rightarrow> env \<Rightarrow> request \<Rightarrow> js_error + request" where
  "gate lib e req = (case run_middleware lib (jwtCheck e) req of
      Inl err \<Rightarrow> Inl err
    | Inr req1 \<Rightarrow> run_middleware lib (needWrite e) req1)"

text \<open>
  A collection maps the \<open>_id\<close> of each document to its other fields, in the order of
  their insertion into the object. The four driver calls the handlers make follow;
  the server is taken to answer each of them.
\<close>

type_synonym doc = "(string \<times> json) list"
type_synonym coll = "ObjectId \<Rightarrow> doc option"
type_synonym database = "string \<Rightarrow> coll"

definition findOne :: "ObjectId \<Rightarrow> coll \<Rightarrow> doc option" where
  "findOne oid c = c oid"

definition insertOne :: "ObjectId \<Rightarrow> doc \<Rightarrow> coll \<Rightarrow> js_error + coll" where
  "insertOne oid d c = (case c oid of
      None \<Rightarrow> Inr (c(oid \<mapsto> d))
    | Some _ \<Rightarrow> Inl (Error ''E11000 duplicate key error''))"

definition replaceOne :: "ObjectId \<Rightarrow> doc \<Rightarrow> coll \<Rightarrow> nat \<times> coll" where
  "replaceOne oid d c = (case c oid of None \<Rightarrow> (0, c) | Some _ \<Rightarrow> (1, c(oid \<mapsto> d)))"

definition deleteOne :: "ObjectId \<Rightarrow> coll \<Rightarrow> nat \<times> coll" where
  "deleteOne oid c = (case c oid of None \<Rightarrow> (0, c) | Some _ \<Rightarrow> (1, c(oid := None)))"

text \<open>\<open>{ ...obj, k: v }\<close>: an own key keeps its place, a new one goes last.\<close>

fun assign :: "string \<Rightarrow> json \<Rightarrow> doc \<Rightarrow> doc" where
  "assign k v [] = [(k, v)]"
| "assign k v ((k', v') # kvs) = (if k' = k then (k, v) # kvs else (k', v') # assign k v kvs)"

section \<open>The handlers (routes/*.js) and the error handler (server.js)\<close>

definition error_handler :: "js_error \<Rightarrow> response" where
  "error_handler err =
     \<lparr>res_status = (case statusCode err of None \<Rightarrow> 500 | Some n \<Rightarrow> if n = 0 then 500 else n),
      res_location = None,
      res_body = message_only
        (if (case expose err of None \<Rightarrow> False | Some b \<Rightarrow> b) then message err
         else ''Internal Server Error'')\<rparr>"

definition send :: "nat \<Rightarrow> payload \<Rightarrow> response" where
  "send code b = \<lparr>res_status = code, res_location = None, res_body = b\<rparr>"

text \<open>
  The document each router stores. anime.js, users.js and watchlists.js add the
  timestamps; manga.js stores the parsed payload as it is.
\<close>

definition inserted_doc :: "resource \<Rightarrow> doc \<Rightarrow> int \<Rightarrow> doc" where
  "inserted_doc r parsed now =
     (if r = manga then parsed
      else assign ''updatedAt'' (JDate now) (assign ''createdAt'' (JDate now) parsed))"

definition replacement_doc :: "resource \<Rightarrow> doc \<Rightarrow> int \<Rightarrow> doc" where
  "replacement_doc r parsed now =
     (if r = manga then parsed else assign ''updatedAt'' (JDate now) parsed)"

text \<open>
  Each handler either sends a response or hands an error to \<open>next\<close> (\<open>Inl\<close>), and
  returns the database as it leaves it. \<open>now\<close> is the clock's reading, \<open>fresh\<close> the
  identifier the driver draws for an inserted document.
\<close>

definition get_handler ::
  "resource \<Rightarrow> request \<Rightarrow> connect_module \<Rightarrow> database \<Rightarrow> js_error + response" where
  "get_handler r req m data = (case parseId r (req_params_id req) of
      Inl err \<Rightarrow> Inl err
    | Inr oid \<Rightarrow> (case getDb m of
          Inl err \<Rightarrow> Inl err
        | Inr _ \<Rightarrow> (case findOne oid (data (collection r)) of
              None \<Rightarrow> Inr (send 404 (message_only ''Not found''))
            | Some d \<Rightarrow> Inr (send 200 (document oid d)))))"

definition post_handler ::
  "runtime \<Rightarrow> resource \<Rightarrow> int \<Rightarrow> ObjectId \<Rightarrow> request \<Rightarrow> connect_module \<Rightarrow> database
    \<Rightarrow> (js_error + response) \<times> database" where
  "post_handler rt r now fresh req m data =
     (if \<not> req_is_json req
      then (Inr (send 415 (message_only ''Content-Type must be application/json'')), data)
      else (case parse rt (Schema rt r) (req_body req) of
          ZodError is \<Rightarrow> (Inr (send 400 (validation_error (flatten is))), data)
        | Thrown err \<Rightarrow> (Inl err, data)
        | Parsed parsed \<Rightarrow> (case getDb m of
              Inl err \<Rightarrow> (Inl err, data)
            | Inr _ \<Rightarrow> (case insertOne fresh (inserted_doc r parsed now) (data (collection r)) of
                  Inl err \<Rightarrow> (Inl err, data)
                | Inr c \<Rightarrow>
                    (Inr \<lparr>res_status = 201,
                          res_location = Some (''/'' @ collection r @ ''/'' @ toString fresh),
                          res_body = created_id (toString fresh)\<rparr>,
                     data(collection r := c))))))"

definition put_handler ::
  "runtime \<Rightarrow> resource \<Rightarrow> int \<Rightarrow> request \<Rightarrow> connect_module \<Rightarrow> database
    \<Rightarrow> (js_error + response) \<times> database" where
  "put_handler rt r now req m data =
     (if \<not> req_is_json req
      then (Inr (send 415 (message_only ''Content-Type must be application/json'')), data)
      else (case parseId r (req_params_id req) of
          Inl err \<Rightarrow> (Inl err, data)
        | Inr oid \<Rightarrow> (case parse rt (Schema rt r) (req_body req) of
              ZodError is \<Rightarrow> (Inr (send 400 (validation_error (flatten is))), data)
            | Thrown err \<Rightarrow> (Inl err, data)
            | Parsed parsed \<Rightarrow> (case getDb m of
                  Inl err \<Rightarrow> (Inl err, data)
                | Inr _ \<Rightarrow>
                    (case replaceOne oid (replacement_doc r parsed now) (data (collection r)) of
                       (matchedCount, c) \<Rightarrow>
                         if matchedCount = 0 then (Inr (send 404 (message_only ''Not found'')), data)
                         else (Inr (send 204 no_content), data(collection r := c)))))))"

definition delete_handler ::
  "resource \<Rightarrow> request \<Rightarrow> connect_module \<Rightarrow> database \<Rightarrow> (js_error + response) \<times> database" where
  "delete_handler r req m data = (case parseId r (req_params_id req) of
      Inl err \<Rightarrow> (Inl err, data)
    | Inr oid \<Rightarrow> (case getDb m of
          Inl err \<Rightarrow> (Inl err, data)
        | Inr _ \<Rightarrow> (case deleteOne oid (data (collection r)) of
              (deletedCount, c) \<Rightarrow>
                if deletedCount = 0 then (Inr (send 404 (message_only ''Not found'')), data)
                else (Inr (send 204 no_content), data(collection r := c)))))"

text \<open>
  The routes as the application serves them: the gate in front of the three writing
  handlers, and the error handler of server.js behind every \<open>next(err)\<close>.
\<close>

definition respond :: "js_error + response \<Rightarrow> response" where
  "respond out = (case out of Inl err \<Rightarrow> error_handler err | Inr res \<Rightarrow> res)"

definition GET_by_id :: "resource \<Rightarrow> request \<Rightarrow> connect_module \<Rightarrow> database \<Rightarrow> response" where
  "GET_by_id r req m data = respond (get_handler r req m data)"

definition POST ::
  "idp \<Rightarrow> env \<Rightarrow> runtime \<Rightarrow> resource \<Rightarrow> int \<Rightarrow> ObjectId \<Rightarrow> request \<Rightarrow> connect_module
    \<Rightarrow> database \<Rightarrow> response \<times> database" where
  "POST lib e rt r now fresh req m data = (case gate lib e req of
      Inl err \<Rightarrow> (error_handler err, data)
    | Inr req1 \<Rightarrow> (case post_handler rt r now fresh req1 m data of
          (out, data1) \<Rightarrow> (respond out, data1)))"

definition PUT ::
  "idp \<Rightarrow> env \<Rightarrow> runtime \<Rightarrow> resource \<Rightarrow> int \<Rightarrow> request \<Rightarrow> connect_module \<Rightarrow> database
    \<Rightarrow> response \<times> database" where
  "PUT lib e rt r now req m data = (case gate lib e req of
      Inl err \<Rightarrow> (error_handler err, data)
    | Inr req1 \<Rightarrow> (case put_handler rt r now req1 m data of
          (out, data1) \<Rightarrow> (respond out, data1)))"

definition DELETE ::
  "idp \<Rightarrow> env \<Rightarrow> resource \<Rightarrow> request \<Rightarrow> connect_module \<Rightarrow> database \<Rightarrow> response \<times> database" where
  "DELETE lib e r req m data = (case gate lib e req of
      Inl err \<Rightarrow> (error_handler err, data)
    | Inr req1 \<Rightarrow> (case delete_handler r req1 m data of
          (out, data1) \<Rightarrow> (respond out, data1)))"

section \<open>Notions the properties are stated with\<close>

text \<open>
  The issues and the output of one field of a payload, and the fields of a shape that
  a payload gets wrong: those whose parser reports at least one issue.
\<close>

definition field_issues :: "runtime \<Rightarrow> ztype \<Rightarrow> string \<Rightarrow> json option \<Rightarrow> issue list" where
  "field_issues rt t k v = (case parse_t rt t [Key k] v of Inl _ \<Rightarrow> [] | Inr (iss, _) \<Rightarrow> iss)"

definition field_output :: "runtime \<Rightarrow> ztype \<Rightarrow> string \<Rightarrow> json option \<Rightarrow> json option" where
  "field_output rt t k v = (case parse_t rt t [Key k] v of Inl _ \<Rightarrow> None | Inr (_, out) \<Rightarrow> out)"

definition invalid_fields :: "runtime \<Rightarrow> zobject \<Rightarrow> (string \<Rightarrow> json option) \<Rightarrow> string list" where
  "invalid_fields rt sh data =
     map fst (filter (\<lambda>(k, t). field_issues rt t k (data k) \<noteq> []) sh)"

text \<open>Whether a schema holds a \<open>z.coerce.number()\<close>, the one parser that can throw.\<close>

fun coerces :: "ztype \<Rightarrow> bool" where
  "coerces (ZodString cs) = False"
| "coerces (ZodNumber c cs) = c"
| "coerces (ZodEnum vs) = False"
| "coerces (ZodArray t mn) = coerces t"
| "coerces (ZodOptional t) = coerces t"
| "coerces (ZodDefault t d) = coerces t"

subsection \<open>A platform and requests for concrete runs\<close>

text \<open>
  The theorems below hold for every platform. Where a run on concrete input is
  evaluated, it is evaluated on \<open>node_2025\<close>: the year is 2025, and the library
  functions have the values JavaScript and zod give them on the inputs of these runs:
  a string of decimal digits converts to the number it writes, and the address and
  the URL of the swagger examples are well-formed. An object of a JSON body converts
  as \<open>ToPrimitive\<close> has it: \<open>Object.prototype.valueOf\<close> returns the object itself, so
  the conversion goes on to \<open>toString\<close>; an own key \<open>toString\<close> holds a JSON value,
  which is not callable, and the conversion throws a TypeError; without that key
  \<open>Object.prototype.toString\<close> gives \<open>[object Object]\<close>, which converts to \<open>NaN\<close>. On
  other inputs, and for the conversion of arrays, the values are placeholders that no
  run reads.
\<close>

definition isDigit :: "char \<Rightarrow> bool" where
  "isDigit c = (48 \<le> (of_char c :: nat) \<and> (of_char c :: nat) \<le> 57)"

definition decimal :: "string \<Rightarrow> jsnum" where
  "decimal s =
     (if s \<noteq> [] \<and> list_all isDigit s
      then Fin (of_nat (foldl (\<lambda>a c. 10 * a + (of_char c - 48)) 0 s)) else NaN)"

definition node_2025 :: runtime where
  "node_2025 = \<lparr>currentYear = 2025, StringToNumber = decimal,
     ObjectToNumber = (\<lambda>v. case v of
         JObj kvs \<Rightarrow> if ''toString'' \<in> fst ` set kvs then None else Some NaN
       | _ \<Rightarrow> Some NaN),
     isEmail = (\<lambda>s. s = ''demo@example.com''),
     isURL = (\<lambda>s. s = ''https://example.com/img.png'')\<rparr>"

definition connected :: connect_module where
  "connected = \<lparr>client = Some ''mongodb://db.example'',
     db = Some \<lparr>client_uri = ''mongodb://db.example'', databaseName = ''library''\<rparr>,
     connections = [''mongodb://db.example'']\<rparr>"

definition empty_database :: database where
  "empty_database = (\<lambda>name. Map.empty)"

definition open_gate :: idp where
  "open_gate = (\<lambda>mw req. None)"

definition no_env :: env where
  "no_env = Map.empty"

definition json_request :: "string \<Rightarrow> json \<Rightarrow> request" where
  "json_request raw b =
     \<lparr>req_params_id = raw, req_is_json = True, req_body = b, req_authorization = None\<rparr>"

definition text_request :: "string \<Rightarrow> json \<Rightarrow> request" where
  "text_request raw b =
     \<lparr>req_params_id = raw, req_is_json = False, req_body = b, req_authorization = None\<rparr>"

definition bebop :: json where
  "bebop = JObj [(''title'', JStr ''Cowboy Bebop''), (''genres'', JArr [JStr ''Action'']),
                 (''releaseYear'', JNum (Fin 1998)), (''status'', JStr ''finished'')]"

definition one_piece :: json where
  "one_piece = JObj [(''title'', JStr ''One Piece''), (''genres'', JArr [JStr ''Adventure'']),
                     (''author'', JStr ''Eiichiro Oda''), (''status'', JStr ''ongoing'')]"

definition watch_item :: json where
  "watch_item = JObj [(''userId'', JStr ''6640a2f2d7b3c1a9f0a11223''), (''kind'', JStr ''anime''),
                      (''refId'', JStr ''665f6a0f2c3d4b1a9f0a1234'')]"

definition demo_user :: json where
  "demo_user = JObj [(''email'', JStr ''demo@example.com''), (''displayName'', JStr ''Demo User'')]"

definition id1 :: string where
  "id1 = ''665f6a0f2c3d4b1a9f0a1234''"

definition bad_anime :: json where
  "bad_anime = JObj [(''title'', JStr ''  ''), (''genres'', JArr []), (''releaseYear'', JStr ''1800'')]"

definition unconvertible_anime :: json where
  "unconvertible_anime = JObj [(''title'', JStr ''''), (''genres'', JArr []),
                               (''releaseYear'', JObj [(''toString'', JNum (Fin 1))])]"

definition auth0_env :: env where
  "auth0_env = [''AUTH0_AUDIENCE'' \<mapsto> ''https://api.example'',
                ''AUTH0_DOMAIN'' \<mapsto> ''tenant.auth0.com'']"

definition bebop_extra :: json where
  "bebop_extra = JObj [(''title'', JStr ''Cowboy Bebop''), (''isAdmin'', JBool True),
                 (''genres'', JArr [JStr ''Action'']),
                 (''releaseYear'', JNum (Fin 1998)), (''status'', JStr ''finished''),
                 (''createdAt'', JStr ''1970-01-01'')]"

section \<open>Properties\<close>

subsection \<open>Lemmas on the validators, the handlers and the gateway\<close>

lemma no_coercion_no_throw:
  "\<not> coerces t \<Longrightarrow> \<exists>res. parse_t rt t p input = Inr res"
  "\<not> coerces t \<Longrightarrow> \<exists>res. parse_elems rt t p i xs = Inr res"
proof (induction rt t p input and rt t p i xs rule: parse_t_parse_elems.induct)
  case (1 rt cs p input)
  then show ?case by (auto split: option.splits json.splits prod.splits)
next
  case (2 rt coerce cs p input)
  then show ?case by (auto split: option.splits json.splits)
next
  case (3 rt vs p input)
  then show ?case by (auto split: option.splits json.splits)
next
  case (4 rt t mn p input)
  then show ?case by (fastforce split: option.splits json.splits sum.splits)
next
  case (5 rt t p input)
  then show ?case by (auto split: option.splits)
next
  case (6 rt t d p input)
  then show ?case by auto
next
  case (7 rt t p i)
  then show ?case by simp
next
  case (8 rt t p i x xs)
  then show ?case by (fastforce split: sum.splits)
qed

lemma string_checks_paths:
  "string_checks rt p cs s = (iss, s') \<Longrightarrow> (q, c) \<in> set iss \<Longrightarrow> q = p"
proof (induction cs arbitrary: s iss s')
  case Nil
  then show ?case by simp
next
  case (Cons a cs)
  then show ?case
    by (auto simp: string_check_step_def split: prod.splits string_check.splits if_splits)
qed

lemma number_check_issues_paths:
  "(q, c) \<in> set (number_check_issues p n x) \<Longrightarrow> q = p"
  by (cases x) (auto simp: number_check_issues_def split: if_splits)

lemma number_checks_paths:
  "number_checks p cs n = (iss, v) \<Longrightarrow> (q, c) \<in> set iss \<Longrightarrow> q = p"
  by (auto simp: number_checks_def split: if_splits dest: number_check_issues_paths)

lemma parse_paths:
  "parse_t rt t p input = Inr (iss, out) \<Longrightarrow> (q, c) \<in> set iss \<Longrightarrow> \<exists>q'. q = p @ q'"
  "parse_elems rt t p i xs = Inr (iss, outs) \<Longrightarrow> (q, c) \<in> set iss \<Longrightarrow> \<exists>q'. q = p @ q'"
proof (induction rt t p input and rt t p i xs arbitrary: iss out and iss outs rule: parse_t_parse_elems.induct)
  case (1 rt cs p input)
  then show ?case by (auto split: option.splits json.splits prod.splits dest: string_checks_paths)
next
  case (2 rt coerce cs p input)
  then show ?case by (auto split: option.splits json.splits if_splits dest: number_checks_paths)
next
  case (3 rt vs p input)
  then show ?case by (auto split: option.splits json.splits if_splits)
next
  case (4 rt t mn p input)
  then show ?case by (auto split: option.splits json.splits sum.splits if_splits)
next
  case (5 rt t p input)
  then show ?case by (auto split: option.splits)
next
  case (6 rt t d p input)
  then show ?case by auto
next
  case (7 rt t p i)
  then show ?case by simp
next
  case (8 rt t p i x xs)
  then show ?case by (fastforce split: sum.splits)
qed

lemma parse_shape_cong:
  "(\<And>k t. (k, t) \<in> set sh \<Longrightarrow> parse_t rt t [Key k] (data k) = parse_t rt t [Key k] (data' k))
    \<Longrightarrow> parse_shape rt sh data = parse_shape rt sh data'"
proof (induction sh)
  case Nil
  show ?case by simp
next
  case (Cons a sh)
  obtain k t where a: "a = (k, t)" by (cases a)
  have here: "parse_t rt t [Key k] (data k) = parse_t rt t [Key k] (data' k)"
    using Cons.prems[of k t] a by simp
  have rest: "parse_shape rt sh data = parse_shape rt sh data'"
    using Cons.IH Cons.prems by simp
  show ?case by (simp only: a parse_shape.simps here rest)
qed

lemma parse_shape_issues:
  "parse_shape rt sh data = Inr (iss, out)
    \<Longrightarrow> iss = concat (map (\<lambda>(k, t). field_issues rt t k (data k)) sh)"
  by (induction sh arbitrary: iss out) (auto simp: field_issues_def split: sum.splits prod.splits)

lemma parse_shape_output:
  "parse_shape rt sh data = Inr (iss, out)
    \<Longrightarrow> out = List.map_filter (\<lambda>(k, t). map_option (Pair k) (field_output rt t k (data k))) sh"
  by (induction sh arbitrary: iss out)
     (auto simp: field_output_def List.map_filter_simps split: sum.splits prod.splits option.splits)

lemma field_issues_head:
  "(q, c) \<in> set (field_issues rt t k v) \<Longrightarrow> q \<noteq> [] \<and> hd q = Key k"
proof -
  assume mem: "(q, c) \<in> set (field_issues rt t k v)"
  then obtain iss out where eq: "parse_t rt t [Key k] v = Inr (iss, out)" and m: "(q, c) \<in> set iss"
    by (cases "parse_t rt t [Key k] v") (auto simp: field_issues_def)
  from parse_paths(1)[OF eq m] obtain q' where "q = [Key k] @ q'" by blast
  then show ?thesis by simp
qed

lemma add_fieldError_keys: "fst ` set (add_fieldError k c fe) = insert k (fst ` set fe)"
  by (induction fe) force+

lemma flatten_into_keys:
  "fst ` set (fieldErrors (flatten_into iss f))
     = fst ` set (fieldErrors f) \<union> set (map (hd \<circ> fst) (filter (\<lambda>(q, c). q \<noteq> []) iss))"
proof (induction iss arbitrary: f)
  case Nil
  then show ?case by simp
next
  case (Cons a iss)
  obtain p c where a: "a = (p, c)" by (cases a)
  show ?case
  proof (cases p)
    case Nil
    with a Cons.IH[of "f\<lparr>formErrors := formErrors f @ [c]\<rparr>"] show ?thesis by simp
  next
    case (Cons k p')
    with a Cons.IH[of "f\<lparr>fieldErrors := add_fieldError k c (fieldErrors f)\<rparr>"] show ?thesis
      by (simp add: add_fieldError_keys)
  qed
qed

lemma flatten_into_formErrors:
  "\<forall>(q, c) \<in> set iss. q \<noteq> [] \<Longrightarrow> formErrors (flatten_into iss f) = formErrors f"
proof (induction iss arbitrary: f)
  case Nil
  then show ?case by simp
next
  case (Cons a iss)
  then show ?case by (cases a) (auto split: list.splits)
qed

lemma flatten_names_invalid_fields:
  assumes "parse_shape rt sh data = Inr (iss, out)"
  shows "fst ` set (fieldErrors (flatten iss)) = Key ` set (invalid_fields rt sh data)"
    and "formErrors (flatten iss) = []"
proof -
  from parse_shape_issues[OF assms]
  have iss: "iss = concat (map (\<lambda>(k, t). field_issues rt t k (data k)) sh)" .
  have heads: "set (map (hd \<circ> fst) (filter (\<lambda>(q, c). q \<noteq> []) iss))
      = Key ` set (invalid_fields rt sh data)"
  proof (intro set_eqI iffI)
    fix x assume "x \<in> set (map (hd \<circ> fst) (filter (\<lambda>(q, c). q \<noteq> []) iss))"
    then obtain q c where qc: "(q, c) \<in> set iss" "x = hd q" by auto
    with iss obtain k t where kt: "(k, t) \<in> set sh" "(q, c) \<in> set (field_issues rt t k (data k))"
      by auto
    from field_issues_head[OF kt(2)] qc have "x = Key k" by simp
    moreover from kt have "k \<in> set (invalid_fields rt sh data)"
      by (force simp: invalid_fields_def)
    ultimately show "x \<in> Key ` set (invalid_fields rt sh data)" by simp
  next
    fix x assume "x \<in> Key ` set (invalid_fields rt sh data)"
    then obtain k t where kt: "x = Key k" "(k, t) \<in> set sh" "field_issues rt t k (data k) \<noteq> []"
      by (auto simp: invalid_fields_def)
    then obtain q c where qc: "(q, c) \<in> set (field_issues rt t k (data k))"
      by (cases "field_issues rt t k (data k)") auto
    from field_issues_head[OF qc] have "q \<noteq> []" "hd q = Key k" by auto
    moreover from qc kt(2) iss have "(q, c) \<in> set iss" by auto
    ultimately show "x \<in> set (map (hd \<circ> fst) (filter (\<lambda>(q, c). q \<noteq> []) iss))"
      using kt(1) by force
  qed
  show "fst ` set (fieldErrors (flatten iss)) = Key ` set (invalid_fields rt sh data)"
    using flatten_into_keys[of iss "\<lparr>formErrors = [], fieldErrors = []\<rparr>"] heads
    by (simp add: flatten_def)
  have "\<forall>(q, c) \<in> set iss. q \<noteq> []"
    using iss field_issues_head by fastforce
  from flatten_into_formErrors[OF this] show "formErrors (flatten iss) = []"
    by (simp add: flatten_def)
qed

lemma parse_shape_invalid_iff:
  "parse_shape rt sh data = Inr (iss, out) \<Longrightarrow> iss = [] \<longleftrightarrow> invalid_fields rt sh data = []"
  by (drule parse_shape_issues) (auto simp: invalid_fields_def filter_empty_conv)

lemma post_created:
  "post_handler rt r now fresh req m data = (Inr res, data') \<Longrightarrow> res_status res = 201
    \<Longrightarrow> \<exists>parsed. req_is_json req \<and> parse rt (Schema rt r) (req_body req) = Parsed parsed
          \<and> data (collection r) fresh = None
          \<and> data' = data(collection r := (data (collection r))(fresh \<mapsto> inserted_doc r parsed now))"
  by (auto simp: post_handler_def send_def insertOne_def
           split: if_splits parse_result.splits sum.splits option.splits)

lemma put_replaced:
  "put_handler rt r now req m data = (Inr res, data') \<Longrightarrow> res_status res = 204
    \<Longrightarrow> \<exists>oid parsed. req_is_json req \<and> parseId r (req_params_id req) = Inr oid
          \<and> parse rt (Schema rt r) (req_body req) = Parsed parsed
          \<and> data (collection r) oid \<noteq> None
          \<and> data' = data(collection r := (data (collection r))(oid \<mapsto> replacement_doc r parsed now))"
  by (auto simp: put_handler_def send_def replaceOne_def
           split: if_splits parse_result.splits sum.splits option.splits)

lemma post_validation_error:
  "post_handler rt r now fresh req m data = (Inr res, data') \<Longrightarrow> res_body res = validation_error f
    \<Longrightarrow> \<exists>iss. parse rt (Schema rt r) (req_body req) = ZodError iss \<and> f = flatten iss
          \<and> res_status res = 400 \<and> data' = data"
  by (auto simp: post_handler_def send_def insertOne_def
           split: if_splits parse_result.splits sum.splits option.splits)

lemma put_validation_error:
  "put_handler rt r now req m data = (Inr res, data') \<Longrightarrow> res_body res = validation_error f
    \<Longrightarrow> \<exists>iss. parse rt (Schema rt r) (req_body req) = ZodError iss \<and> f = flatten iss
          \<and> res_status res = 400 \<and> data' = data"
  by (auto simp: put_handler_def send_def replaceOne_def
           split: if_splits parse_result.splits sum.splits option.splits)

lemma parse_object_cases:
  "parse rt sh (JObj kvs) = ZodError iss
    \<longleftrightarrow> (\<exists>out. parse_shape rt sh (map_of kvs) = Inr (iss, out) \<and> iss \<noteq> [])"
  "parse rt sh (JObj kvs) = Parsed out \<longleftrightarrow> parse_shape rt sh (map_of kvs) = Inr ([], out)"
  "parse rt sh (JObj kvs) = Thrown err \<longleftrightarrow> parse_shape rt sh (map_of kvs) = Inl err"
  by (auto simp: parse_def split: sum.splits)

lemma map_of_filter_keys:
  "P k \<Longrightarrow> map_of (filter (\<lambda>kv. P (fst kv)) kvs) k = map_of kvs k"
  by (induction kvs) auto

lemma parse_ignores_unknown:
  "parse rt sh (JObj (filter (\<lambda>kv. fst kv \<in> fst ` set sh) kvs)) = parse rt sh (JObj kvs)"
proof -
  have "parse_shape rt sh (map_of (filter (\<lambda>kv. fst kv \<in> fst ` set sh) kvs))
      = parse_shape rt sh (map_of kvs)"
  proof (rule parse_shape_cong)
    fix k t assume "(k, t) \<in> set sh"
    then have "k \<in> fst ` set sh" by force
    then have "map_of (filter (\<lambda>kv. fst kv \<in> fst ` set sh) kvs) k = map_of kvs k"
      by (rule map_of_filter_keys[of "\<lambda>k. k \<in> fst ` set sh"])
    then show "parse_t rt t [Key k] (map_of (filter (\<lambda>kv. fst kv \<in> fst ` set sh) kvs) k)
        = parse_t rt t [Key k] (map_of kvs k)" by (simp only:)
  qed
  then show ?thesis by (simp add: parse_def)
qed

lemma parsed_keys:
  "parse rt sh body = Parsed out \<Longrightarrow> fst ` set out \<subseteq> fst ` set sh"
proof -
  assume p: "parse rt sh body = Parsed out"
  then obtain kvs where "body = JObj kvs" by (cases body) (auto simp: parse_def)
  with p have "parse_shape rt sh (map_of kvs) = Inr ([], out)" by (simp add: parse_object_cases)
  from parse_shape_output[OF this] show ?thesis
    by (force simp: List.map_filter_def)
qed

lemma assign_keys: "fst ` set (assign k v d) = insert k (fst ` set d)"
  by (induction d) force+

lemma map_of_assign: "map_of (assign k v d) k' = (if k' = k then Some v else map_of d k')"
  by (induction d) auto

lemma gate_cases: "gate lib e req = Inr req \<or> (\<exists>err. gate lib e req = Inl err)"
  by (auto simp: gate_def run_middleware_def split: middleware.splits option.splits sum.splits)

lemma error_handler_body: "res_body (error_handler err) \<noteq> validation_error f"
  by (simp add: error_handler_def)

lemma schema_no_coercion:
  "r \<noteq> anime \<Longrightarrow> (k, t) \<in> set (Schema rt r) \<Longrightarrow> \<not> coerces t"
  by (cases r)
     (auto simp: Schema_def MangaSchema_def UserSchema_def WatchItemSchema_def ObjectIdString_def)

lemma parse_shape_no_throw:
  "(\<And>k t. (k, t) \<in> set sh \<Longrightarrow> \<not> coerces t) \<Longrightarrow> \<exists>res. parse_shape rt sh data = Inr res"
proof (induction sh)
  case Nil
  show ?case by simp
next
  case (Cons a sh)
  obtain k t where a: "a = (k, t)" by (cases a)
  from Cons.prems[of k t] a have "\<not> coerces t" by simp
  from no_coercion_no_throw(1)[OF this]
  obtain iss1 v where here: "parse_t rt t [Key k] (data k) = Inr (iss1, v)" by fastforce
  from Cons.IH Cons.prems obtain iss2 out where rest: "parse_shape rt sh data = Inr (iss2, out)"
    by fastforce
  show ?case by (simp add: a here rest)
qed

lemma parse_no_throw: "r \<noteq> anime \<Longrightarrow> parse rt (Schema rt r) body \<noteq> Thrown err"
proof (cases body)
  case (JObj kvs)
  assume "r \<noteq> anime"
  then have "\<exists>res. parse_shape rt (Schema rt r) (map_of kvs) = Inr res"
    by (intro parse_shape_no_throw) (rule schema_no_coercion)
  with JObj show ?thesis by (auto simp: parse_def split: if_splits)
qed (simp_all add: parse_def)

lemma parse_ZodError_report:
  "parse rt sh (JObj kvs) = ZodError iss
    \<Longrightarrow> fst ` set (fieldErrors (flatten iss)) = Key ` set (invalid_fields rt sh (map_of kvs))
        \<and> formErrors (flatten iss) = [] \<and> invalid_fields rt sh (map_of kvs) \<noteq> []"
proof -
  assume "parse rt sh (JObj kvs) = ZodError iss"
  then obtain out where ps: "parse_shape rt sh (map_of kvs) = Inr (iss, out)" and ne: "iss \<noteq> []"
    by (auto simp: parse_object_cases)
  from flatten_names_invalid_fields[OF ps] parse_shape_invalid_iff[OF ps] ne
  show ?thesis by simp
qed

lemma parse_invalid_is_ZodError:
  "invalid_fields rt sh (map_of kvs) \<noteq> [] \<Longrightarrow> (\<And>err. parse rt sh (JObj kvs) \<noteq> Thrown err)
    \<Longrightarrow> \<exists>iss. parse rt sh (JObj kvs) = ZodError iss"
proof -
  assume inv: "invalid_fields rt sh (map_of kvs) \<noteq> []"
    and nt: "\<And>err. parse rt sh (JObj kvs) \<noteq> Thrown err"
  show ?thesis
  proof (cases "parse_shape rt sh (map_of kvs)")
    case (Inl err)
    with nt[of err] show ?thesis by (simp add: parse_def)
  next
    case (Inr res)
    obtain iss out where res: "res = (iss, out)" by (cases res)
    from parse_shape_invalid_iff[of rt sh "map_of kvs" iss out] Inr res inv have "iss \<noteq> []" by simp
    with Inr res show ?thesis by (simp add: parse_def)
  qed
qed

lemma parse_shape_throws_iff:
  "(\<exists>err. parse_shape rt sh data = Inl err)
    \<longleftrightarrow> (\<exists>(k, t) \<in> set sh. \<exists>err. parse_t rt t [Key k] (data k) = Inl err)"
proof (induction sh)
  case Nil
  show ?case by simp
next
  case (Cons a sh)
  obtain k t where a: "a = (k, t)" by (cases a)
  show ?case
  proof (cases "parse_t rt t [Key k] (data k)")
    case (Inl err)
    then show ?thesis by (auto simp: a)
  next
    case (Inr res)
    obtain iss1 v where res: "res = (iss1, v)" by (cases res)
    have "(\<exists>err. parse_shape rt (a # sh) data = Inl err) \<longleftrightarrow> (\<exists>err. parse_shape rt sh data = Inl err)"
      by (cases "parse_shape rt sh data") (auto simp: a Inr res)
    with Cons.IH Inr show ?thesis by (auto simp: a)
  qed
qed

lemma coerced_number_throws:
  "(\<exists>err. parse_t rt (ZodNumber True cs) p input = Inl err) \<longleftrightarrow> Number rt input = None"
  "(\<exists>err. parse_t rt (ZodOptional (ZodNumber True cs)) p input = Inl err) \<longleftrightarrow> Number rt input = None"
  by (auto split: option.splits)

lemma anime_throws_iff:
  "(\<exists>err. parse rt (AnimeSchema rt) (JObj kvs) = Thrown err)
    \<longleftrightarrow> (\<exists>k \<in> set [''releaseYear'', ''rating'', ''episodes'']. Number rt (map_of kvs k) = None)"
proof -
  have plain: "\<not> (\<exists>err. parse_t rt t p input = Inl err)" if "\<not> coerces t" for t p input
    using no_coercion_no_throw(1)[OF that, of rt p input] by auto
  have "(\<exists>err. parse_shape rt (AnimeSchema rt) (map_of kvs) = Inl err)
    \<longleftrightarrow> (\<exists>k \<in> set [''releaseYear'', ''rating'', ''episodes'']. Number rt (map_of kvs k) = None)"
    unfolding parse_shape_throws_iff
    by (simp add: AnimeSchema_def plain coerced_number_throws del: parse_t.simps)
  then show ?thesis by (simp add: parse_object_cases)
qed

lemma connectToDb_again:
  "db m = Some h \<Longrightarrow> truthy uri \<Longrightarrow> truthy dbName
    \<Longrightarrow> connectToDb uri dbName answer m = (Inr h, m)"
  by (simp add: connectToDb_def)

lemma connectToDb_first_success:
  "db m = None \<Longrightarrow> truthy uri \<Longrightarrow> truthy dbName
    \<Longrightarrow> \<exists>h1 m1. connectToDb uri dbName up m = (Inr h1, m1) \<and> getDb m1 = Inr h1"
  by (simp add: connectToDb_def getDb_def Let_def)

lemma connectToDb_keeps_db:
  "db m = Some h \<Longrightarrow> connectToDb uri dbName answer m = (r, m1)
    \<Longrightarrow> m1 = m \<and> (\<forall>h1. r = Inr h1 \<longrightarrow> h1 = h)"
  by (auto simp: connectToDb_def split: if_splits)

lemma connectToDb_first:
  "db m = None \<Longrightarrow> connectToDb uri dbName answer m = (r, m1)
    \<Longrightarrow> (\<forall>h. r = Inr h \<longleftrightarrow> db m1 = Some h)"
  by (auto simp: connectToDb_def Let_def split: if_splits server_answer.splits)

lemma connect_calls_open:
  "db m = Some h \<Longrightarrow> connect_calls cs m = (rs, m1)
    \<Longrightarrow> m1 = m \<and> (\<forall>h1. Inr h1 \<in> set rs \<longrightarrow> h1 = h)"
proof (induction cs arbitrary: rs m1)
  case Nil
  then show ?case by simp
next
  case (Cons c cs)
  obtain uri dbName answer where c: "c = (uri, dbName, answer)"
    by (cases c)
  obtain r m2 where r: "connectToDb uri dbName answer m = (r, m2)"
    by (cases "connectToDb uri dbName answer m")
  obtain rs2 m3 where rs2: "connect_calls cs m2 = (rs2, m3)"
    by (cases "connect_calls cs m2")
  from connectToDb_keeps_db[OF Cons.prems(1) r]
  have m2: "m2 = m" and rh: "\<forall>h1. r = Inr h1 \<longrightarrow> h1 = h"
    by auto
  from Cons.IH[of rs2 m3] rs2 m2 Cons.prems(1)
  have "m3 = m \<and> (\<forall>h1. Inr h1 \<in> set rs2 \<longrightarrow> h1 = h)"
    by simp
  moreover from Cons.prems(2) c r rs2 have "rs = r # rs2" "m1 = m3"
    by auto
  ultimately show ?case
    using rh by auto
qed

lemma connect_calls_closed:
  "db m = None \<Longrightarrow> connect_calls cs m = (rs, m1)
    \<Longrightarrow> (\<forall>h. Inr h \<in> set rs \<longleftrightarrow> db m1 = Some h)"
proof (induction cs arbitrary: m rs m1)
  case Nil
  then show ?case by auto
next
  case (Cons c cs)
  obtain uri dbName answer where c: "c = (uri, dbName, answer)"
    by (cases c)
  obtain r m2 where r: "connectToDb uri dbName answer m = (r, m2)"
    by (cases "connectToDb uri dbName answer m")
  obtain rs2 m3 where rs2: "connect_calls cs m2 = (rs2, m3)"
    by (cases "connect_calls cs m2")
  from Cons.prems(2) c r rs2 have rs: "rs = r # rs2" and m13: "m1 = m3"
    by auto
  from connectToDb_first[OF Cons.prems(1) r]
  have first: "\<forall>h. r = Inr h \<longleftrightarrow> db m2 = Some h" .
  show ?case
  proof (cases "db m2")
    case None
    from Cons.IH[OF None rs2] first None rs m13 show ?thesis
      by auto
  next
    case (Some h2)
    from connect_calls_open[OF Some rs2] first Some rs m13 show ?thesis
      by auto
  qed
qed

lemma parse_bad_anime:
  "parse node_2025 (Schema node_2025 anime) bad_anime
     = ZodError [([Key ''title''], too_small), ([Key ''genres''], too_small),
                 ([Key ''releaseYear''], too_small), ([Key ''status''], invalid_type)]"
  by (simp add: parse_def Schema_def AnimeSchema_def bad_anime_def node_2025_def
      number_checks_def number_check_issues_def string_check_step_def trim_def
      isWhiteSpace_def isInteger_def decimal_def isDigit_def)

lemma invalid_bad_anime:
  "invalid_fields node_2025 (Schema node_2025 anime)
      (map_of [(''title'', JStr ''  ''), (''genres'', JArr []), (''releaseYear'', JStr ''1800'')])
     = [''title'', ''genres'', ''releaseYear'', ''status'']"
  by (simp add: invalid_fields_def field_issues_def Schema_def AnimeSchema_def node_2025_def
      number_checks_def number_check_issues_def string_check_step_def trim_def
      isWhiteSpace_def isInteger_def decimal_def isDigit_def)

lemma parse_unconvertible_anime:
  "parse node_2025 (Schema node_2025 anime) unconvertible_anime = Thrown TypeError"
  by (simp add: parse_def Schema_def AnimeSchema_def unconvertible_anime_def node_2025_def
      string_check_step_def trim_def)

lemma invalid_unconvertible_anime:
  "invalid_fields node_2025 (Schema node_2025 anime)
      (map_of [(''title'', JStr ''''), (''genres'', JArr []),
               (''releaseYear'', JObj [(''toString'', JNum (Fin 1))])])
     = [''title'', ''genres'', ''status'']"
  by (simp add: invalid_fields_def field_issues_def Schema_def AnimeSchema_def node_2025_def
      string_check_step_def trim_def)

lemma lower_TRUE: "toLowerCase ''TRUE'' = ''true''"
  by code_simp

lemma parse_bebop_extra:
  "parse node_2025 (Schema node_2025 anime) bebop_extra
     = Parsed [(''title'', JStr ''Cowboy Bebop''), (''genres'', JArr [JStr ''Action'']),
               (''releaseYear'', JNum (Fin 1998)), (''status'', JStr ''finished'')]"
  by code_simp

lemma timestamps_not_declared:
  "''createdAt'' \<notin> fst ` set (Schema rt r)" "''updatedAt'' \<notin> fst ` set (Schema rt r)"
  by (cases r; simp add: Schema_def AnimeSchema_def MangaSchema_def UserSchema_def
        WatchItemSchema_def)+

lemma map_of_absent: "k \<notin> fst ` set d \<Longrightarrow> map_of d k = None"
  by (simp add: map_of_eq_None_iff)

lemma parsed_no_timestamps:
  assumes "parse rt (Schema rt r) body = Parsed parsed"
  shows "map_of parsed ''createdAt'' = None" "map_of parsed ''updatedAt'' = None"
    "k \<notin> fst ` set (Schema rt r) \<Longrightarrow> map_of parsed k = None"
  using parsed_keys[OF assms] timestamps_not_declared[of rt r]
  by (auto intro!: map_of_absent)

lemma parse_bebop:
  "parse node_2025 (Schema node_2025 anime) bebop
     = Parsed [(''title'', JStr ''Cowboy Bebop''), (''genres'', JArr [JStr ''Action'']),
               (''releaseYear'', JNum (Fin 1998)), (''status'', JStr ''finished'')]"
  by (simp add: parse_def Schema_def AnimeSchema_def bebop_def node_2025_def
      number_checks_def number_check_issues_def string_check_step_def trim_def
      isWhiteSpace_def isInteger_def)

lemma parse_one_piece:
  "parse node_2025 (Schema node_2025 manga) one_piece
     = Parsed [(''title'', JStr ''One Piece''), (''genres'', JArr [JStr ''Adventure'']),
               (''author'', JStr ''Eiichiro Oda''), (''status'', JStr ''ongoing'')]"
  by (simp add: parse_def Schema_def MangaSchema_def one_piece_def node_2025_def
      number_checks_def number_check_issues_def string_check_step_def trim_def
      isWhiteSpace_def isInteger_def)

lemma hex24_examples: "hex24 ''6640a2f2d7b3c1a9f0a11223''" "hex24 ''665f6a0f2c3d4b1a9f0a1234''"
  by (simp_all add: hex24_def isHexDigit_def)

lemma parse_watch_item:
  "parse rt (Schema rt watchlists) watch_item
     = Parsed [(''userId'', JStr ''6640a2f2d7b3c1a9f0a11223''), (''kind'', JStr ''anime''),
               (''refId'', JStr ''665f6a0f2c3d4b1a9f0a1234''), (''status'', JStr ''planned'')]"
  by (simp add: parse_def Schema_def WatchItemSchema_def ObjectIdString_def watch_item_def
      string_check_step_def hex24_examples)

lemma parseId_id1: "parseId r id1 = Inr (ObjectId id1)"
  by (simp add: parseId_def new_ObjectId_def id1_def hex24_examples toLowerCase_def)

lemma post_bebop:
  "post_handler node_2025 anime 1000 (ObjectId id1) (json_request [] bebop) connected empty_database
     = (Inr \<lparr>res_status = 201, res_location = Some ''/anime/665f6a0f2c3d4b1a9f0a1234'',
            res_body = created_id ''665f6a0f2c3d4b1a9f0a1234''\<rparr>,
        empty_database(''anime'' := [ObjectId id1 \<mapsto>
          [(''title'', JStr ''Cowboy Bebop''), (''genres'', JArr [JStr ''Action'']),
           (''releaseYear'', JNum (Fin 1998)), (''status'', JStr ''finished''),
           (''createdAt'', JDate 1000), (''updatedAt'', JDate 1000)]]))"
  by (simp add: post_handler_def json_request_def parse_bebop getDb_def connected_def
      insertOne_def empty_database_def inserted_doc_def collection_def id1_def)

lemma put_bebop:
  "put_handler node_2025 anime 2000 (json_request id1 bebop) connected
      (empty_database(''anime'' := [ObjectId id1 \<mapsto>
          [(''title'', JStr ''Cowboy Bebop''), (''genres'', JArr [JStr ''Action'']),
           (''releaseYear'', JNum (Fin 1998)), (''status'', JStr ''finished''),
           (''createdAt'', JDate 1000), (''updatedAt'', JDate 1000)]]))
     = (Inr (send 204 no_content),
        empty_database(''anime'' := [ObjectId id1 \<mapsto>
          [(''title'', JStr ''Cowboy Bebop''), (''genres'', JArr [JStr ''Action'']),
           (''releaseYear'', JNum (Fin 1998)), (''status'', JStr ''finished''),
           (''updatedAt'', JDate 2000)]]))"
  by (simp add: put_handler_def json_request_def parse_bebop parseId_id1 getDb_def connected_def
      replaceOne_def empty_database_def replacement_doc_def collection_def)

lemma post_one_piece:
  "post_handler node_2025 manga 1000 (ObjectId id1) (json_request [] one_piece) connected
      empty_database
     = (Inr \<lparr>res_status = 201, res_location = Some ''/manga/665f6a0f2c3d4b1a9f0a1234'',
            res_body = created_id ''665f6a0f2c3d4b1a9f0a1234''\<rparr>,
        empty_database(''manga'' := [ObjectId id1 \<mapsto>
          [(''title'', JStr ''One Piece''), (''genres'', JArr [JStr ''Adventure'']),
           (''author'', JStr ''Eiichiro Oda''), (''status'', JStr ''ongoing'')]]))"
  by (simp add: post_handler_def json_request_def parse_one_piece getDb_def connected_def
      insertOne_def empty_database_def inserted_doc_def collection_def id1_def)

lemma put_one_piece:
  "put_handler node_2025 manga 2000 (json_request id1 one_piece) connected
      (empty_database(''manga'' := [ObjectId id1 \<mapsto>
          [(''title'', JStr ''One Piece''), (''genres'', JArr [JStr ''Adventure'']),
           (''author'', JStr ''Eiichiro Oda''), (''status'', JStr ''ongoing'')]]))
     = (Inr (send 204 no_content),
        empty_database(''manga'' := [ObjectId id1 \<mapsto>
          [(''title'', JStr ''One Piece''), (''genres'', JArr [JStr ''Adventure'']),
           (''author'', JStr ''Eiichiro Oda''), (''status'', JStr ''ongoing'')]]))"
  by (simp add: put_handler_def json_request_def parse_one_piece parseId_id1 getDb_def
      connected_def replaceOne_def empty_database_def replacement_doc_def collection_def)

lemma post_watch_item:
  "post_handler rt watchlists 1000 (ObjectId id1) (json_request [] watch_item) connected
      empty_database
     = (Inr \<lparr>res_status = 201, res_location = Some ''/watchlists/665f6a0f2c3d4b1a9f0a1234'',
            res_body = created_id ''665f6a0f2c3d4b1a9f0a1234''\<rparr>,
        empty_database(''watchlists'' := [ObjectId id1 \<mapsto>
          [(''userId'', JStr ''6640a2f2d7b3c1a9f0a11223''), (''kind'', JStr ''anime''),
           (''refId'', JStr ''665f6a0f2c3d4b1a9f0a1234''), (''status'', JStr ''planned''),
           (''createdAt'', JDate 1000), (''updatedAt'', JDate 1000)]]))"
  by (simp add: post_handler_def json_request_def parse_watch_item getDb_def connected_def
      insertOne_def empty_database_def inserted_doc_def collection_def id1_def)

lemma put_watch_item:
  "put_handler rt watchlists 2000 (json_request id1 watch_item) connected
      (empty_database(''watchlists'' := [ObjectId id1 \<mapsto>
          [(''userId'', JStr ''6640a2f2d7b3c1a9f0a11223''), (''kind'', JStr ''anime''),
           (''refId'', JStr ''665f6a0f2c3d4b1a9f0a1234''), (''status'', JStr ''planned''),
           (''createdAt'', JDate 1000), (''updatedAt'', JDate 1000)]]))
     = (Inr (send 204 no_content),
        empty_database(''watchlists'' := [ObjectId id1 \<mapsto>
          [(''userId'', JStr ''6640a2f2d7b3c1a9f0a11223''), (''kind'', JStr ''anime''),
           (''refId'', JStr ''665f6a0f2c3d4b1a9f0a1234''), (''status'', JStr ''planned''),
           (''updatedAt'', JDate 2000)]]))"
  by (simp add: put_handler_def json_request_def parse_watch_item parseId_id1 getDb_def
      connected_def replaceOne_def empty_database_def replacement_doc_def collection_def)

lemma parseId_cases:
  "hex24 s \<Longrightarrow> parseId r s = Inr (ObjectId (toLowerCase s))"
  "\<not> hex24 s \<Longrightarrow> parseId r s
     = Inl \<lparr>message = invalid_id_message r, statusCode = Some 400, expose = Some True\<rparr>"
  by (simp_all add: parseId_def new_ObjectId_def)

lemma invalid_id_response:
  "error_handler \<lparr>message = invalid_id_message r, statusCode = Some 400, expose = Some True\<rparr>
     = send 400 (message_only (invalid_id_message r))"
  by (simp add: error_handler_def send_def)

lemma not_an_id: "\<not> hex24 ''not-an-id''"
  by (simp add: hex24_def)

lemma open_gate_passes: "gate open_gate no_env req = Inr req"
  by (simp add: gate_def run_middleware_def jwtCheck_def needWrite_def reqScopes_def
      hasAuthConfig_def no_env_def truthy_def)

lemma parse_shape_keys:
  "parse_shape rt sh data = Inr (iss, out) \<Longrightarrow> fst ` set out \<subseteq> fst ` set sh"
  by (drule parse_shape_output) (force simp: List.map_filter_def)

lemma parse_shape_lookup:
  "parse_shape rt sh data = Inr (iss, out) \<Longrightarrow> distinct (map fst sh) \<Longrightarrow> (k, t) \<in> set sh
    \<Longrightarrow> map_of out k = field_output rt t k (data k)"
proof (induction sh arbitrary: iss out)
  case Nil
  then show ?case by simp
next
  case (Cons a sh)
  obtain k1 t1 where a: "a = (k1, t1)" by (cases a)
  from Cons.prems(1) a obtain iss1 v iss2 out2 where
    here: "parse_t rt t1 [Key k1] (data k1) = Inr (iss1, v)"
    and rest: "parse_shape rt sh data = Inr (iss2, out2)"
    and out: "out = (case v of None \<Rightarrow> out2 | Some x \<Rightarrow> (k1, x) # out2)"
    by (auto split: sum.splits prod.splits)
  from Cons.prems(2) a have d: "distinct (map fst sh)" and fresh: "k1 \<notin> fst ` set sh"
    by auto
  show ?case
  proof (cases "k = k1")
    case True
    with Cons.prems(3) a fresh have t: "t = t1" by force
    from parse_shape_keys[OF rest] fresh have "k1 \<notin> fst ` set out2" by blast
    then have "map_of out2 k1 = None" by (simp add: map_of_eq_None_iff)
    with out True t here show ?thesis
      by (cases v) (simp_all add: field_output_def)
  next
    case False
    with Cons.prems(3) a have "(k, t) \<in> set sh" by simp
    from Cons.IH[OF rest d this] out False show ?thesis
      by (cases v) simp_all
  qed
qed

lemma parsed_lookup:
  "parse rt sh (JObj kvs) = Parsed out \<Longrightarrow> distinct (map fst sh) \<Longrightarrow> (k, t) \<in> set sh
    \<Longrightarrow> map_of out k = field_output rt t k (map_of kvs k)"
  by (simp add: parse_object_cases parse_shape_lookup)

lemma field_issue_rejects:
  assumes "\<And>k t. (k, t) \<in> set sh \<Longrightarrow> \<not> coerces t"
    and "(k, t) \<in> set sh" and "i \<in> set (field_issues rt t k (map_of kvs k))"
  shows "\<exists>iss. parse rt sh (JObj kvs) = ZodError iss \<and> i \<in> set iss"
proof -
  from parse_shape_no_throw[of sh rt "map_of kvs"] assms(1)
  obtain iss out where ps: "parse_shape rt sh (map_of kvs) = Inr (iss, out)" by fastforce
  from parse_shape_issues[OF ps] assms(2,3) have "i \<in> set iss" by auto
  with ps show ?thesis by (auto simp: parse_def)
qed

lemma parse_cong:
  "(\<And>k t. (k, t) \<in> set sh \<Longrightarrow>
      parse_t rt t [Key k] (map_of kvs k) = parse_t rt t [Key k] (map_of kvs' k))
    \<Longrightarrow> parse rt sh (JObj kvs) = parse rt sh (JObj kvs')"
  using parse_shape_cong[of sh rt "map_of kvs" "map_of kvs'"] by (simp add: parse_def)

lemma watch_default:
  "map_of kvs ''status'' = None \<Longrightarrow>
     parse rt WatchItemSchema (JObj ((''status'', JStr ''planned'') # kvs))
       = parse rt WatchItemSchema (JObj kvs)"
  by (rule parse_cong) (auto simp: WatchItemSchema_def)

lemma user_default:
  "map_of kvs ''role'' = None \<Longrightarrow>
     parse rt UserSchema (JObj ((''role'', JStr ''user'') # kvs)) = parse rt UserSchema (JObj kvs)"
  by (rule parse_cong) (auto simp: UserSchema_def)

lemma watch_status_out:
  "map_of kvs ''status'' = None \<Longrightarrow> parse rt WatchItemSchema (JObj kvs) = Parsed out
    \<Longrightarrow> map_of out ''status'' = Some (JStr ''planned'')"
  using parsed_lookup[of rt WatchItemSchema kvs out "''status''"
      "ZodDefault (ZodEnum [''planned'', ''watching'', ''completed'', ''reading'']) (JStr ''planned'')"]
  by (simp add: WatchItemSchema_def field_output_def)

lemma user_role_out:
  "map_of kvs ''role'' = None \<Longrightarrow> parse rt UserSchema (JObj kvs) = Parsed out
    \<Longrightarrow> map_of out ''role'' = Some (JStr ''user'')"
  using parsed_lookup[of rt UserSchema kvs out "''role''"
      "ZodDefault (ZodEnum [''user'', ''admin'']) (JStr ''user'')"]
  by (simp add: UserSchema_def field_output_def)

lemma watch_accepts:
  assumes "map_of kvs ''status'' = None"
    and "map_of kvs ''userId'' = Some (JStr u)" "hex24 u"
    and "map_of kvs ''kind'' = Some (JStr k)" "k = ''anime'' \<or> k = ''manga''"
    and "map_of kvs ''refId'' = Some (JStr f)" "hex24 f"
    and "map_of kvs ''notes'' = None \<or> (\<exists>n. map_of kvs ''notes'' = Some (JStr n) \<and> length n \<le> 500)"
  shows "parse rt WatchItemSchema (JObj kvs)
     = Parsed ([(''userId'', JStr u), (''kind'', JStr k), (''refId'', JStr f),
                (''status'', JStr ''planned'')]
               @ (case map_of kvs ''notes'' of None \<Rightarrow> [] | Some v \<Rightarrow> [(''notes'', v)]))"
  using assms
  by (auto simp: parse_def WatchItemSchema_def ObjectIdString_def string_check_step_def)

lemma user_accepts:
  assumes "map_of kvs ''role'' = None"
    and "map_of kvs ''email'' = Some (JStr a)" "isEmail rt a"
    and "map_of kvs ''displayName'' = Some (JStr n)" "n \<noteq> []"
  shows "parse rt UserSchema (JObj kvs)
     = Parsed [(''email'', JStr a), (''displayName'', JStr n), (''role'', JStr ''user'')]"
  using assms
  by (cases n) (auto simp: parse_def UserSchema_def string_check_step_def)

lemma stored_lookup:
  assumes "post_handler rt r now fresh req m data = (Inr res, data')" "res_status res = 201"
    and "k \<noteq> ''createdAt''" "k \<noteq> ''updatedAt''"
  shows "\<exists>parsed d. parse rt (Schema rt r) (req_body req) = Parsed parsed
      \<and> data' (collection r) fresh = Some d \<and> map_of d k = map_of parsed k"
proof -
  from post_created[OF assms(1,2)] obtain parsed where
    p: "parse rt (Schema rt r) (req_body req) = Parsed parsed"
    and d: "data' = data(collection r := (data (collection r))(fresh \<mapsto> inserted_doc r parsed now))"
    by blast
  from assms(3,4) have "map_of (inserted_doc r parsed now) k = map_of parsed k"
    by (simp add: inserted_doc_def map_of_assign)
  with p d show ?thesis by simp
qed

lemma anime_number_fields:
  assumes "f = ''releaseYear'' \<or> f = ''rating'' \<or> f = ''episodes''"
    and "(f, t) \<in> set (AnimeSchema rt)"
  shows "(\<exists>cs. t = ZodNumber True cs) \<or> (\<exists>cs. t = ZodOptional (ZodNumber True cs))"
  using assms by (elim disjE) (simp_all add: AnimeSchema_def)

lemma anime_number_field_present:
  assumes "f = ''releaseYear'' \<or> f = ''rating'' \<or> f = ''episodes''"
  shows "\<exists>t. (f, t) \<in> set (AnimeSchema rt)"
  using assms by (elim disjE) (simp_all add: AnimeSchema_def)

lemma coerced_field:
  assumes "(\<exists>cs. t = ZodNumber True cs) \<or> (\<exists>cs. t = ZodOptional (ZodNumber True cs))"
  shows "parse_t rt t p (Some (JStr s)) = parse_t rt t p (Some (JNum (StringToNumber rt s)))"
    and "parse_t rt t p (Some (JStr s)) = Inr (iss, out) \<Longrightarrow> iss = []
      \<Longrightarrow> out = Some (JNum (StringToNumber rt s))"
  using assms by (auto simp: number_checks_def split: if_splits)

lemma anime_coercion:
  assumes "f = ''releaseYear'' \<or> f = ''rating'' \<or> f = ''episodes''"
  shows "parse rt (AnimeSchema rt) (JObj ((f, JStr s) # kvs))
       = parse rt (AnimeSchema rt) (JObj ((f, JNum (StringToNumber rt s)) # kvs))"
proof (rule parse_cong)
  fix k t assume kt: "(k, t) \<in> set (AnimeSchema rt)"
  show "parse_t rt t [Key k] (map_of ((f, JStr s) # kvs) k)
      = parse_t rt t [Key k] (map_of ((f, JNum (StringToNumber rt s)) # kvs) k)"
  proof (cases "k = f")
    case False
    then show ?thesis by simp
  next
    case True
    with kt have "(f, t) \<in> set (AnimeSchema rt)" by simp
    from coerced_field(1)[OF anime_number_fields[OF assms this]] True show ?thesis
      by simp
  qed
qed

lemma anime_coerced_out:
  assumes "f = ''releaseYear'' \<or> f = ''rating'' \<or> f = ''episodes''"
    and "parse rt (AnimeSchema rt) (JObj ((f, JStr s) # kvs)) = Parsed out"
  shows "map_of out f = Some (JNum (StringToNumber rt s))"
proof -
  have d: "distinct (map fst (AnimeSchema rt))"
    by (simp add: AnimeSchema_def)
  from anime_number_field_present[OF assms(1)] obtain t where t: "(f, t) \<in> set (AnimeSchema rt)"
    by blast
  note shape = anime_number_fields[OF assms(1) t]
  from assms(2) have ps:
    "parse_shape rt (AnimeSchema rt) (map_of ((f, JStr s) # kvs)) = Inr ([], out)"
    by (simp add: parse_object_cases)
  from parse_shape_issues[OF ps] t have none: "field_issues rt t f (Some (JStr s)) = []"
    by fastforce
  have "\<exists>res. parse_t rt t [Key f] (Some (JStr s)) = Inr res"
    using shape by auto
  then obtain iss1 out1 where p1: "parse_t rt t [Key f] (Some (JStr s)) = Inr (iss1, out1)"
    by fastforce
  with none have "iss1 = []" by (simp add: field_issues_def)
  from coerced_field(2)[OF shape p1 this] p1
  have "field_output rt t f (Some (JStr s)) = Some (JNum (StringToNumber rt s))"
    by (simp add: field_output_def)
  with parse_shape_lookup[OF ps d t] show ?thesis by simp
qed

lemma anime_accepts_numeric_strings:
  assumes "StringToNumber rt y = Fin qy" "isInteger (Fin qy)" "1960 \<le> qy"
      "qy \<le> of_int (currentYear rt + 1)"
    and "StringToNumber rt g = Fin qg" "0 \<le> qg" "qg \<le> 10"
    and "StringToNumber rt p = Fin qp" "isInteger (Fin qp)" "0 \<le> qp"
  shows "parse rt (AnimeSchema rt)
      (JObj [(''title'', JStr ''Cowboy Bebop''), (''genres'', JArr [JStr ''Action'']),
             (''releaseYear'', JStr y), (''rating'', JStr g), (''episodes'', JStr p),
             (''status'', JStr ''finished'')])
    = Parsed [(''title'', JStr ''Cowboy Bebop''), (''genres'', JArr [JStr ''Action'']),
              (''releaseYear'', JNum (Fin qy)), (''rating'', JNum (Fin qg)),
              (''episodes'', JNum (Fin qp)), (''status'', JStr ''finished'')]"
  using assms
  by (simp add: parse_def AnimeSchema_def number_checks_def number_check_issues_def
      string_check_step_def trim_def isWhiteSpace_def)

lemma manga_rejects_strings:
  assumes "f = ''chapters'' \<or> f = ''releaseYear'' \<or> f = ''rating''"
  shows "\<exists>iss. parse rt (MangaSchema rt) (JObj ((f, JStr s) # kvs)) = ZodError iss
      \<and> ([Key f], invalid_type) \<in> set iss"
proof -
  have nc: "\<And>k t. (k, t) \<in> set (MangaSchema rt) \<Longrightarrow> \<not> coerces t"
    using schema_no_coercion[of manga _ _ rt] by (simp add: Schema_def)
  have "\<exists>t. (f, t) \<in> set (MangaSchema rt)
      \<and> field_issues rt t f (Some (JStr s)) = [([Key f], invalid_type)]"
    using assms by (elim disjE) (simp_all add: MangaSchema_def field_issues_def)
  then obtain t where t: "(f, t) \<in> set (MangaSchema rt)"
    and i: "field_issues rt t f (Some (JStr s)) = [([Key f], invalid_type)]"
    by blast
  from field_issue_rejects[of "MangaSchema rt" f t "([Key f], invalid_type)" rt "(f, JStr s) # kvs",
      OF nc t] i
  show ?thesis by simp
qed

lemma not_a_string:
  assumes "\<forall>s. v \<noteq> JStr s"
  shows "parse_t rt (ZodString cs) p (Some v) = Inr ([(p, invalid_type)], None)"
    and "parse_t rt (ZodDefault (ZodEnum vs) d) p (Some v) = Inr ([(p, invalid_type)], None)"
  using assms by (cases v; simp)+

lemma users_reject_other_types:
  assumes "f = ''email'' \<or> f = ''displayName'' \<or> f = ''role''" "\<forall>s. v \<noteq> JStr s"
  shows "\<exists>iss. parse rt UserSchema (JObj ((f, v) # kvs)) = ZodError iss
      \<and> ([Key f], invalid_type) \<in> set iss"
proof -
  have nc: "\<And>k t. (k, t) \<in> set UserSchema \<Longrightarrow> \<not> coerces t"
    using schema_no_coercion[of users _ _ rt] by (simp add: Schema_def)
  have "\<exists>t. (f, t) \<in> set UserSchema
      \<and> field_issues rt t f (Some v) = [([Key f], invalid_type)]"
    using assms(1)
    by (elim disjE)
       (simp_all add: UserSchema_def field_issues_def not_a_string[OF assms(2)] del: parse_t.simps)
  then obtain t where t: "(f, t) \<in> set UserSchema"
    and i: "field_issues rt t f (Some v) = [([Key f], invalid_type)]"
    by blast
  from field_issue_rejects[of UserSchema f t "([Key f], invalid_type)" rt "(f, v) # kvs",
      OF nc t] i
  show ?thesis by simp
qed

lemma users_reject_unknown_role:
  assumes "s \<noteq> ''user''" "s \<noteq> ''admin''"
  shows "\<exists>iss. parse rt UserSchema (JObj ((''role'', JStr s) # kvs)) = ZodError iss
      \<and> ([Key ''role''], invalid_enum_value) \<in> set iss"
proof -
  have nc: "\<And>k t. (k, t) \<in> set UserSchema \<Longrightarrow> \<not> coerces t"
    using schema_no_coercion[of users _ _ rt] by (simp add: Schema_def)
  have t: "(''role'', ZodDefault (ZodEnum [''user'', ''admin'']) (JStr ''user'')) \<in> set UserSchema"
    by (simp add: UserSchema_def)
  have i: "field_issues rt (ZodDefault (ZodEnum [''user'', ''admin'']) (JStr ''user'')) ''role''
      (Some (JStr s)) = [([Key ''role''], invalid_enum_value)]"
    using assms by (simp add: field_issues_def)
  from field_issue_rejects[of UserSchema "''role''" _ "([Key ''role''], invalid_enum_value)" rt
      "(''role'', JStr s) # kvs", OF nc t] i
  show ?thesis by simp
qed

lemma decimal_examples:
  "decimal ''2009'' = Fin 2009" "decimal ''9'' = Fin 9" "decimal ''64'' = Fin 64"
  by (simp_all add: decimal_def isDigit_def)

lemma parse_demo_user:
  "parse node_2025 UserSchema demo_user
     = Parsed [(''email'', JStr ''demo@example.com''), (''displayName'', JStr ''Demo User''),
               (''role'', JStr ''user'')]"
  by (simp add: parse_def UserSchema_def demo_user_def node_2025_def string_check_step_def)

subsection \<open>Replace\<close>

text \<open>
  C1, as the code has it. For anime, users and watchlists, a \<open>PUT\<close> that answers 204
  found a document under the identifier and put in its place exactly the validated
  fields of the body (defaults included) followed by \<open>updatedAt\<close>, set to the time
  of the request. Nothing of the replaced document is carried over: a key that the
  schema does not declare is absent afterwards, and \<open>createdAt\<close> is such a key.
\<close>

theorem put_stores_validated_fields_and_updatedAt_only:
  assumes "r \<noteq> manga"
    and "put_handler rt r now req m data = (Inr res, data')"
    and "res_status res = 204"
  shows "\<exists>oid parsed d.
      parseId r (req_params_id req) = Inr oid
    \<and> parse rt (Schema rt r) (req_body req) = Parsed parsed
    \<and> data (collection r) oid \<noteq> None
    \<and> data' (collection r) oid = Some d
    \<and> d = assign ''updatedAt'' (JDate now) parsed
    \<and> fst ` set d = insert ''updatedAt'' (fst ` set parsed)
    \<and> map_of d ''updatedAt'' = Some (JDate now)
    \<and> (\<forall>k. k \<noteq> ''updatedAt'' \<longrightarrow> map_of d k = map_of parsed k)
    \<and> (\<forall>k. k \<notin> fst ` set (Schema rt r) \<longrightarrow> k \<noteq> ''updatedAt'' \<longrightarrow> map_of d k = None)
    \<and> map_of d ''createdAt'' = None"
proof -
  from put_replaced[OF assms(2,3)] obtain oid parsed where
    i: "parseId r (req_params_id req) = Inr oid"
    and p: "parse rt (Schema rt r) (req_body req) = Parsed parsed"
    and old: "data (collection r) oid \<noteq> None"
    and d: "data' = data(collection r := (data (collection r))(oid \<mapsto> replacement_doc r parsed now))"
    by blast
  let ?d = "assign ''updatedAt'' (JDate now) parsed"
  from d assms(1) have stored: "data' (collection r) oid = Some ?d"
    by (simp add: replacement_doc_def)
  have keys: "fst ` set ?d = insert ''updatedAt'' (fst ` set parsed)"
    by (rule assign_keys)
  have upd: "map_of ?d ''updatedAt'' = Some (JDate now)"
    by (simp add: map_of_assign)
  have others: "\<forall>k. k \<noteq> ''updatedAt'' \<longrightarrow> map_of ?d k = map_of parsed k"
    by (simp add: map_of_assign)
  have undeclared: "\<forall>k. k \<notin> fst ` set (Schema rt r) \<longrightarrow> k \<noteq> ''updatedAt'' \<longrightarrow> map_of ?d k = None"
    using parsed_no_timestamps(3)[OF p] by (simp add: map_of_assign)
  have created: "map_of ?d ''createdAt'' = None"
    using parsed_no_timestamps(1)[OF p] by (simp add: map_of_assign)
  from i p old stored keys upd others undeclared created show ?thesis
    by blast
qed

text \<open>
  C1 does not hold as first stated, with \<open>createdAt\<close> preserved and \<open>updatedAt\<close>
  refreshed on every resource: an anime created at time 1000 holds \<open>createdAt\<close>, a
  replace at time 2000 answers 204, and the document no longer has it; and the
  document a successful replace on manga stores has no \<open>updatedAt\<close>.
\<close>

theorem put_drops_createdAt:
  "map_of (the (snd (post_handler node_2025 anime 1000 (ObjectId id1) (json_request [] bebop)
        connected empty_database) ''anime'' (ObjectId id1))) ''createdAt'' = Some (JDate 1000)
   \<and> fst (put_handler node_2025 anime 2000 (json_request id1 bebop) connected
        (snd (post_handler node_2025 anime 1000 (ObjectId id1) (json_request [] bebop)
           connected empty_database))) = Inr (send 204 no_content)
   \<and> map_of (the (snd (put_handler node_2025 anime 2000 (json_request id1 bebop) connected
        (snd (post_handler node_2025 anime 1000 (ObjectId id1) (json_request [] bebop)
           connected empty_database))) ''anime'' (ObjectId id1))) ''createdAt'' = None
   \<and> fst (put_handler node_2025 manga 2000 (json_request id1 one_piece) connected
        (snd (post_handler node_2025 manga 1000 (ObjectId id1) (json_request [] one_piece)
           connected empty_database))) = Inr (send 204 no_content)
   \<and> map_of (the (snd (put_handler node_2025 manga 2000 (json_request id1 one_piece) connected
        (snd (post_handler node_2025 manga 1000 (ObjectId id1) (json_request [] one_piece)
           connected empty_database))) ''manga'' (ObjectId id1))) ''updatedAt'' = None"
  by (simp add: post_bebop put_bebop post_one_piece put_one_piece)

theorem put_stores_validated_fields_witness:
  "put_handler node_2025 anime 2000 (json_request id1 bebop) connected
      (empty_database(''anime'' := [ObjectId id1 \<mapsto>
          [(''title'', JStr ''Cowboy Bebop''), (''genres'', JArr [JStr ''Action'']),
           (''releaseYear'', JNum (Fin 1998)), (''status'', JStr ''finished''),
           (''createdAt'', JDate 1000), (''updatedAt'', JDate 1000)]]))
     = (Inr (send 204 no_content),
        empty_database(''anime'' := [ObjectId id1 \<mapsto>
          [(''title'', JStr ''Cowboy Bebop''), (''genres'', JArr [JStr ''Action'']),
           (''releaseYear'', JNum (Fin 1998)), (''status'', JStr ''finished''),
           (''updatedAt'', JDate 2000)]]))
   \<and> (\<exists>oid parsed d. parseId anime id1 = Inr oid
        \<and> parse node_2025 (Schema node_2025 anime) bebop = Parsed parsed
        \<and> d = assign ''updatedAt'' (JDate 2000) parsed
        \<and> map_of d ''updatedAt'' = Some (JDate 2000) \<and> map_of d ''createdAt'' = None)"
proof -
  have "anime \<noteq> manga" "res_status (send 204 no_content) = 204"
    by (simp_all add: send_def)
  from put_stores_validated_fields_and_updatedAt_only[OF this(1) put_bebop this(2)] put_bebop show ?thesis
    by (auto simp: json_request_def)
qed

subsection \<open>Malformed identifiers\<close>

text \<open>
  C2, as the code has it. A path identifier parses exactly when it is 24 hexadecimal
  characters, in either case of letters; any other string makes \<open>parseId\<close> fail with
  an error of status 400 that the error handler shows. With such a string get-by-id
  answers 400, and so do delete and replace once the gate has let the request
  through, except that replace answers 415 when the Content-Type is not JSON: it
  checks the content type before it parses the identifier. None of the three answers
  404 or 500 then, and none touches the database.
\<close>

theorem malformed_id_is_400_unless_415_first:
  "(hex24 s \<longrightarrow> parseId r s = Inr (ObjectId (toLowerCase s)))
   \<and> (\<not> hex24 s \<longrightarrow> parseId r s
        = Inl \<lparr>message = invalid_id_message r, statusCode = Some 400, expose = Some True\<rparr>)
   \<and> (\<not> hex24 (req_params_id req) \<longrightarrow>
        GET_by_id r req m data = send 400 (message_only (invalid_id_message r))
      \<and> (gate lib e req = Inr req \<longrightarrow>
           DELETE lib e r req m data = (send 400 (message_only (invalid_id_message r)), data)
         \<and> PUT lib e rt r now req m data
             = (if req_is_json req then send 400 (message_only (invalid_id_message r))
                else send 415 (message_only ''Content-Type must be application/json''), data)))"
proof -
  have ops: "GET_by_id r req m data = send 400 (message_only (invalid_id_message r))
      \<and> (gate lib e req = Inr req \<longrightarrow>
           DELETE lib e r req m data = (send 400 (message_only (invalid_id_message r)), data)
         \<and> PUT lib e rt r now req m data
             = (if req_is_json req then send 400 (message_only (invalid_id_message r))
                else send 415 (message_only ''Content-Type must be application/json''), data))"
    if bad: "\<not> hex24 (req_params_id req)"
  proof -
    note p = parseId_cases(2)[OF bad, of r]
    have g: "GET_by_id r req m data = send 400 (message_only (invalid_id_message r))"
      by (simp add: GET_by_id_def get_handler_def p respond_def invalid_id_response)
    have d: "DELETE lib e r req m data = (send 400 (message_only (invalid_id_message r)), data)"
      if "gate lib e req = Inr req"
      using that by (simp add: DELETE_def delete_handler_def p respond_def invalid_id_response)
    have u: "PUT lib e rt r now req m data
             = (if req_is_json req then send 400 (message_only (invalid_id_message r))
                else send 415 (message_only ''Content-Type must be application/json''), data)"
      if "gate lib e req = Inr req"
      using that by (simp add: PUT_def put_handler_def p respond_def invalid_id_response)
    from g d u show ?thesis by blast
  qed
  from parseId_cases[of s r] ops show ?thesis by blast
qed

text \<open>
  C2 does not hold as first stated, with 400 for every malformed identifier: a \<open>PUT\<close>
  with a malformed identifier and a body that is not JSON is answered with 415.
\<close>

theorem put_malformed_id_wrong_content_type_is_415:
  "\<not> hex24 ''not-an-id''
   \<and> PUT open_gate no_env node_2025 anime 0 (text_request ''not-an-id'' bebop) connected
        empty_database
     = (\<lparr>res_status = 415, res_location = None,
         res_body = message_only ''Content-Type must be application/json''\<rparr>, empty_database)"
  by (simp add: not_an_id PUT_def open_gate_passes put_handler_def text_request_def respond_def
      send_def)

theorem malformed_id_witness:
  "parseId users ''665F6A0F2C3D4B1A9F0A1234'' = Inr (ObjectId ''665f6a0f2c3d4b1a9f0a1234'')
   \<and> parseId users ''not-an-id''
       = Inl \<lparr>message = ''Invalid id format'', statusCode = Some 400, expose = Some True\<rparr>
   \<and> GET_by_id anime (json_request ''not-an-id'' bebop) connected empty_database
       = send 400 (message_only ''Invalid id'')
   \<and> DELETE open_gate no_env anime (json_request ''not-an-id'' bebop) connected empty_database
       = (send 400 (message_only ''Invalid id''), empty_database)
   \<and> PUT open_gate no_env node_2025 anime 0 (json_request ''not-an-id'' bebop) connected
        empty_database
       = (send 400 (message_only ''Invalid id''), empty_database)"
proof -
  have up: "hex24 ''665F6A0F2C3D4B1A9F0A1234''"
    by (simp add: hex24_def isHexDigit_def)
  have low: "toLowerCase ''665F6A0F2C3D4B1A9F0A1234'' = ''665f6a0f2c3d4b1a9f0a1234''"
    by code_simp
  have bad: "\<not> hex24 (req_params_id (json_request ''not-an-id'' bebop))"
    by (simp add: json_request_def not_an_id)
  have js: "req_is_json (json_request ''not-an-id'' bebop)"
    by (simp add: json_request_def)
  from up low not_an_id bad js open_gate_passes
    malformed_id_is_400_unless_415_first[of "''665F6A0F2C3D4B1A9F0A1234''" users "json_request ''not-an-id'' bebop" connected
       empty_database open_gate no_env node_2025 0]
    malformed_id_is_400_unless_415_first[of "''not-an-id''" users "json_request ''not-an-id'' bebop" connected
       empty_database open_gate no_env node_2025 0]
    malformed_id_is_400_unless_415_first[of "''not-an-id''" anime "json_request ''not-an-id'' bebop" connected
       empty_database open_gate no_env node_2025 0]
  show ?thesis by (simp add: invalid_id_message_def)
qed

subsection \<open>Timestamps\<close>

text \<open>
  C3, as the code has it. For anime, users and watchlists, a \<open>POST\<close> answered with 201
  has stored a document whose \<open>createdAt\<close> and \<open>updatedAt\<close> are both the time of
  the request, and a \<open>PUT\<close> answered with 204 has stored a document whose
  \<open>updatedAt\<close> is the time of the request and which has no \<open>createdAt\<close>.
\<close>

theorem timestamps_on_create_and_replace:
  assumes "r \<noteq> manga"
  shows "(post_handler rt r now fresh req m data = (Inr res, data') \<and> res_status res = 201
      \<longrightarrow> (\<exists>d. data' (collection r) fresh = Some d
            \<and> map_of d ''createdAt'' = Some (JDate now)
            \<and> map_of d ''updatedAt'' = Some (JDate now)))
    \<and> (put_handler rt r now req m data = (Inr res, data') \<and> res_status res = 204
      \<longrightarrow> (\<exists>oid d. parseId r (req_params_id req) = Inr oid
            \<and> data' (collection r) oid = Some d
            \<and> map_of d ''updatedAt'' = Some (JDate now)
            \<and> map_of d ''createdAt'' = None))"
proof -
  have post: "\<exists>d. data' (collection r) fresh = Some d
            \<and> map_of d ''createdAt'' = Some (JDate now)
            \<and> map_of d ''updatedAt'' = Some (JDate now)"
    if "post_handler rt r now fresh req m data = (Inr res, data')" "res_status res = 201"
  proof -
    from post_created[OF that] obtain parsed where
      d: "data' = data(collection r := (data (collection r))(fresh \<mapsto> inserted_doc r parsed now))"
      by blast
    with assms show ?thesis
      by (simp add: inserted_doc_def map_of_assign)
  qed
  have put: "\<exists>oid d. parseId r (req_params_id req) = Inr oid
            \<and> data' (collection r) oid = Some d
            \<and> map_of d ''updatedAt'' = Some (JDate now)
            \<and> map_of d ''createdAt'' = None"
    if "put_handler rt r now req m data = (Inr res, data')" "res_status res = 204"
  proof -
    from put_replaced[OF that] obtain oid parsed where
      i: "parseId r (req_params_id req) = Inr oid"
      and p: "parse rt (Schema rt r) (req_body req) = Parsed parsed"
      and d: "data' = data(collection r := (data (collection r))(oid \<mapsto> replacement_doc r parsed now))"
      by blast
    from d assms parsed_no_timestamps(1)[OF p] i show ?thesis
      by (simp add: replacement_doc_def map_of_assign)
  qed
  from post put show ?thesis by blast
qed

text \<open>
  C3 does not hold as first stated, for every resource and with \<open>createdAt\<close> left
  unchanged: the document a successful \<open>POST\<close> on manga stores has neither
  timestamp, and a watch-list item created at time 1000 loses its \<open>createdAt\<close> in
  a successful replace.
\<close>

theorem manga_has_no_timestamps_replace_drops_createdAt:
  "fst (post_handler node_2025 manga 1000 (ObjectId id1) (json_request [] one_piece) connected
        empty_database)
     = Inr \<lparr>res_status = 201, res_location = Some ''/manga/665f6a0f2c3d4b1a9f0a1234'',
            res_body = created_id ''665f6a0f2c3d4b1a9f0a1234''\<rparr>
   \<and> map_of (the (snd (post_handler node_2025 manga 1000 (ObjectId id1)
        (json_request [] one_piece) connected empty_database) ''manga'' (ObjectId id1)))
        ''createdAt'' = None
   \<and> map_of (the (snd (post_handler node_2025 manga 1000 (ObjectId id1)
        (json_request [] one_piece) connected empty_database) ''manga'' (ObjectId id1)))
        ''updatedAt'' = None
   \<and> map_of (the (snd (post_handler node_2025 watchlists 1000 (ObjectId id1)
        (json_request [] watch_item) connected empty_database) ''watchlists'' (ObjectId id1)))
        ''createdAt'' = Some (JDate 1000)
   \<and> fst (put_handler node_2025 watchlists 2000 (json_request id1 watch_item) connected
        (snd (post_handler node_2025 watchlists 1000 (ObjectId id1) (json_request [] watch_item)
           connected empty_database))) = Inr (send 204 no_content)
   \<and> map_of (the (snd (put_handler node_2025 watchlists 2000 (json_request id1 watch_item)
        connected (snd (post_handler node_2025 watchlists 1000 (ObjectId id1)
           (json_request [] watch_item) connected empty_database))) ''watchlists''
        (ObjectId id1))) ''createdAt'' = None"
  by (simp add: post_one_piece post_watch_item put_watch_item)

theorem timestamps_witness:
  "post_handler node_2025 watchlists 1000 (ObjectId id1) (json_request [] watch_item) connected
      empty_database
     = (Inr \<lparr>res_status = 201, res_location = Some ''/watchlists/665f6a0f2c3d4b1a9f0a1234'',
            res_body = created_id ''665f6a0f2c3d4b1a9f0a1234''\<rparr>,
        empty_database(''watchlists'' := [ObjectId id1 \<mapsto>
          [(''userId'', JStr ''6640a2f2d7b3c1a9f0a11223''), (''kind'', JStr ''anime''),
           (''refId'', JStr ''665f6a0f2c3d4b1a9f0a1234''), (''status'', JStr ''planned''),
           (''createdAt'', JDate 1000), (''updatedAt'', JDate 1000)]]))
   \<and> (\<exists>d. snd (post_handler node_2025 watchlists 1000 (ObjectId id1) (json_request [] watch_item)
          connected empty_database) ''watchlists'' (ObjectId id1) = Some d
       \<and> map_of d ''createdAt'' = Some (JDate 1000) \<and> map_of d ''updatedAt'' = Some (JDate 1000))
   \<and> (\<exists>oid d. parseId watchlists id1 = Inr oid
       \<and> snd (put_handler node_2025 watchlists 2000 (json_request id1 watch_item) connected
          (empty_database(''watchlists'' := [ObjectId id1 \<mapsto>
          [(''userId'', JStr ''6640a2f2d7b3c1a9f0a11223''), (''kind'', JStr ''anime''),
           (''refId'', JStr ''665f6a0f2c3d4b1a9f0a1234''), (''status'', JStr ''planned''),
           (''createdAt'', JDate 1000), (''updatedAt'', JDate 1000)]]))) ''watchlists'' oid = Some d
       \<and> map_of d ''updatedAt'' = Some (JDate 2000) \<and> map_of d ''createdAt'' = None)"
proof -
  let ?res = "\<lparr>res_status = 201, res_location = Some ''/watchlists/665f6a0f2c3d4b1a9f0a1234'',
            res_body = created_id ''665f6a0f2c3d4b1a9f0a1234''\<rparr>"
  let ?data1 = "empty_database(''watchlists'' := [ObjectId id1 \<mapsto>
          [(''userId'', JStr ''6640a2f2d7b3c1a9f0a11223''), (''kind'', JStr ''anime''),
           (''refId'', JStr ''665f6a0f2c3d4b1a9f0a1234''), (''status'', JStr ''planned''),
           (''createdAt'', JDate 1000), (''updatedAt'', JDate 1000)]])"
  let ?data2 = "empty_database(''watchlists'' := [ObjectId id1 \<mapsto>
          [(''userId'', JStr ''6640a2f2d7b3c1a9f0a11223''), (''kind'', JStr ''anime''),
           (''refId'', JStr ''665f6a0f2c3d4b1a9f0a1234''), (''status'', JStr ''planned''),
           (''updatedAt'', JDate 2000)]])"
  have r: "watchlists \<noteq> manga"
    by simp
  have s: "res_status ?res = 201" "res_status (send 204 no_content) = 204"
    by (simp_all add: send_def)
  have c: "collection watchlists = ''watchlists''"
    by (simp add: collection_def)
  have i: "req_params_id (json_request id1 watch_item) = id1"
    by (simp add: json_request_def)
  note post = post_watch_item[of node_2025] and put = put_watch_item[of node_2025]
  from timestamps_on_create_and_replace[OF r, of node_2025 1000 "ObjectId id1"
      "json_request [] watch_item" connected empty_database ?res ?data1] post s(1)
  have a: "\<exists>d. snd (post_handler node_2025 watchlists 1000 (ObjectId id1)
          (json_request [] watch_item) connected empty_database) ''watchlists'' (ObjectId id1) = Some d
       \<and> map_of d ''createdAt'' = Some (JDate 1000) \<and> map_of d ''updatedAt'' = Some (JDate 1000)"
    by (simp add: c)
  from timestamps_on_create_and_replace[OF r, of node_2025 2000 "ObjectId id1"
      "json_request id1 watch_item" connected ?data1 "send 204 no_content" ?data2] put s(2)
  have b: "\<exists>oid d. parseId watchlists id1 = Inr oid
       \<and> snd (put_handler node_2025 watchlists 2000 (json_request id1 watch_item) connected
          ?data1) ''watchlists'' oid = Some d
       \<and> map_of d ''updatedAt'' = Some (JDate 2000) \<and> map_of d ''createdAt'' = None"
    by (simp add: c i)
  from post a b show ?thesis
    by blast
qed

subsection \<open>Coercion\<close>

text \<open>
  C4. In the three numeric fields of an anime payload a string is treated exactly as
  the number JavaScript converts it to: the validator answers both alike, and where
  it accepts, its output holds the number. So a payload whose \<open>releaseYear\<close>,
  \<open>rating\<close> and \<open>episodes\<close> are strings that convert to numbers within the bounds of
  those fields is accepted and converted. The manga validator refuses every string in
  \<open>chapters\<close>, \<open>releaseYear\<close> and \<open>rating\<close> with a type error; the user validator
  refuses every value that is not a string, in each of its fields, and every role
  other than the two it lists.
\<close>

theorem anime_coerces_numeric_strings_manga_and_users_do_not:
  "(f = ''releaseYear'' \<or> f = ''rating'' \<or> f = ''episodes'' \<longrightarrow>
      parse rt (AnimeSchema rt) (JObj ((f, JStr s) # kvs))
        = parse rt (AnimeSchema rt) (JObj ((f, JNum (StringToNumber rt s)) # kvs))
    \<and> (\<forall>out. parse rt (AnimeSchema rt) (JObj ((f, JStr s) # kvs)) = Parsed out
          \<longrightarrow> map_of out f = Some (JNum (StringToNumber rt s))))
   \<and> (StringToNumber rt y = Fin qy \<and> isInteger (Fin qy) \<and> 1960 \<le> qy
        \<and> qy \<le> of_int (currentYear rt + 1)
      \<and> StringToNumber rt g = Fin qg \<and> 0 \<le> qg \<and> qg \<le> 10
      \<and> StringToNumber rt p = Fin qp \<and> isInteger (Fin qp) \<and> 0 \<le> qp
      \<longrightarrow> parse rt (AnimeSchema rt)
            (JObj [(''title'', JStr ''Cowboy Bebop''), (''genres'', JArr [JStr ''Action'']),
                   (''releaseYear'', JStr y), (''rating'', JStr g), (''episodes'', JStr p),
                   (''status'', JStr ''finished'')])
          = Parsed [(''title'', JStr ''Cowboy Bebop''), (''genres'', JArr [JStr ''Action'']),
                    (''releaseYear'', JNum (Fin qy)), (''rating'', JNum (Fin qg)),
                    (''episodes'', JNum (Fin qp)), (''status'', JStr ''finished'')])
   \<and> (f = ''chapters'' \<or> f = ''releaseYear'' \<or> f = ''rating'' \<longrightarrow>
        (\<exists>iss. parse rt (MangaSchema rt) (JObj ((f, JStr s) # kvs)) = ZodError iss
           \<and> ([Key f], invalid_type) \<in> set iss))
   \<and> ((f = ''email'' \<or> f = ''displayName'' \<or> f = ''role'') \<and> (\<forall>x. v \<noteq> JStr x) \<longrightarrow>
        (\<exists>iss. parse rt UserSchema (JObj ((f, v) # kvs)) = ZodError iss
           \<and> ([Key f], invalid_type) \<in> set iss))
   \<and> (s \<noteq> ''user'' \<and> s \<noteq> ''admin'' \<longrightarrow>
        (\<exists>iss. parse rt UserSchema (JObj ((''role'', JStr s) # kvs)) = ZodError iss
           \<and> ([Key ''role''], invalid_enum_value) \<in> set iss))"
proof -
  have a1: "parse rt (AnimeSchema rt) (JObj ((f, JStr s) # kvs))
        = parse rt (AnimeSchema rt) (JObj ((f, JNum (StringToNumber rt s)) # kvs))"
    if "f = ''releaseYear'' \<or> f = ''rating'' \<or> f = ''episodes''"
    using anime_coercion[OF that] .
  have a2: "\<forall>out. parse rt (AnimeSchema rt) (JObj ((f, JStr s) # kvs)) = Parsed out
          \<longrightarrow> map_of out f = Some (JNum (StringToNumber rt s))"
    if "f = ''releaseYear'' \<or> f = ''rating'' \<or> f = ''episodes''"
    using anime_coerced_out[OF that] by blast
  show ?thesis
  proof (intro conjI)
    show "f = ''releaseYear'' \<or> f = ''rating'' \<or> f = ''episodes'' \<longrightarrow>
      parse rt (AnimeSchema rt) (JObj ((f, JStr s) # kvs))
        = parse rt (AnimeSchema rt) (JObj ((f, JNum (StringToNumber rt s)) # kvs))
      \<and> (\<forall>out. parse rt (AnimeSchema rt) (JObj ((f, JStr s) # kvs)) = Parsed out
          \<longrightarrow> map_of out f = Some (JNum (StringToNumber rt s)))"
      using a1 a2 by blast
    show "StringToNumber rt y = Fin qy \<and> isInteger (Fin qy) \<and> 1960 \<le> qy
        \<and> qy \<le> of_int (currentYear rt + 1)
      \<and> StringToNumber rt g = Fin qg \<and> 0 \<le> qg \<and> qg \<le> 10
      \<and> StringToNumber rt p = Fin qp \<and> isInteger (Fin qp) \<and> 0 \<le> qp
      \<longrightarrow> parse rt (AnimeSchema rt)
            (JObj [(''title'', JStr ''Cowboy Bebop''), (''genres'', JArr [JStr ''Action'']),
                   (''releaseYear'', JStr y), (''rating'', JStr g), (''episodes'', JStr p),
                   (''status'', JStr ''finished'')])
          = Parsed [(''title'', JStr ''Cowboy Bebop''), (''genres'', JArr [JStr ''Action'']),
                    (''releaseYear'', JNum (Fin qy)), (''rating'', JNum (Fin qg)),
                    (''episodes'', JNum (Fin qp)), (''status'', JStr ''finished'')]"
      using anime_accepts_numeric_strings[of rt y qy g qg p qp] by (intro impI) (elim conjE)
    show "f = ''chapters'' \<or> f = ''releaseYear'' \<or> f = ''rating'' \<longrightarrow>
        (\<exists>iss. parse rt (MangaSchema rt) (JObj ((f, JStr s) # kvs)) = ZodError iss
           \<and> ([Key f], invalid_type) \<in> set iss)"
      using manga_rejects_strings[of f rt s kvs] by (intro impI)
    show "(f = ''email'' \<or> f = ''displayName'' \<or> f = ''role'') \<and> (\<forall>x. v \<noteq> JStr x) \<longrightarrow>
        (\<exists>iss. parse rt UserSchema (JObj ((f, v) # kvs)) = ZodError iss
           \<and> ([Key f], invalid_type) \<in> set iss)"
      using users_reject_other_types[of f v rt kvs] by (intro impI) (elim conjE)
    show "s \<noteq> ''user'' \<and> s \<noteq> ''admin'' \<longrightarrow>
        (\<exists>iss. parse rt UserSchema (JObj ((''role'', JStr s) # kvs)) = ZodError iss
           \<and> ([Key ''role''], invalid_enum_value) \<in> set iss)"
      using users_reject_unknown_role[of s rt kvs] by (intro impI) (elim conjE)
  qed
qed

theorem anime_coerces_numeric_strings_witness:
  "parse node_2025 (AnimeSchema node_2025)
      (JObj [(''title'', JStr ''Cowboy Bebop''), (''genres'', JArr [JStr ''Action'']),
             (''releaseYear'', JStr ''2009''), (''rating'', JStr ''9''), (''episodes'', JStr ''64''),
             (''status'', JStr ''finished'')])
    = Parsed [(''title'', JStr ''Cowboy Bebop''), (''genres'', JArr [JStr ''Action'']),
              (''releaseYear'', JNum (Fin 2009)), (''rating'', JNum (Fin 9)),
              (''episodes'', JNum (Fin 64)), (''status'', JStr ''finished'')]
   \<and> (\<exists>iss. parse node_2025 (MangaSchema node_2025) (JObj [(''chapters'', JStr ''64'')])
          = ZodError iss \<and> ([Key ''chapters''], invalid_type) \<in> set iss)
   \<and> (\<exists>iss. parse node_2025 UserSchema (JObj [(''email'', JNum (Fin 9))]) = ZodError iss
          \<and> ([Key ''email''], invalid_type) \<in> set iss)
   \<and> (\<exists>iss. parse node_2025 UserSchema (JObj [(''role'', JStr ''root'')]) = ZodError iss
          \<and> ([Key ''role''], invalid_enum_value) \<in> set iss)"
proof -
  have n: "StringToNumber node_2025 ''2009'' = Fin 2009" "StringToNumber node_2025 ''9'' = Fin 9"
      "StringToNumber node_2025 ''64'' = Fin 64" "currentYear node_2025 = 2025"
    by (simp_all add: node_2025_def decimal_examples)
  have i: "isInteger (Fin 2009)" "isInteger (Fin 64)"
    by (simp_all add: isInteger_def)
  have v: "\<forall>x. JNum (Fin 9) \<noteq> JStr x" "''root'' \<noteq> ''user''" "''root'' \<noteq> ''admin''"
    by simp_all
  from n i v
    anime_coerces_numeric_strings_manga_and_users_do_not[of "''chapters''" node_2025 "''64''" "[]" "''2009''" 2009 "''9''" 9 "''64''" 64 "JNum (Fin 9)"]
    anime_coerces_numeric_strings_manga_and_users_do_not[of "''email''" node_2025 "''root''" "[]" "''2009''" 2009 "''9''" 9 "''64''" 64 "JNum (Fin 9)"]
  show ?thesis by simp
qed

subsection \<open>The validation report\<close>

text \<open>
  C5, as the code has it. Validation runs to completion on every manga, user and
  watchlist payload, and on an anime payload unless the conversion to a number of its
  \<open>releaseYear\<close>, \<open>rating\<close> or \<open>episodes\<close> throws. When it completes on an object
  body that has at least one invalid field and was sent as JSON, \<open>POST\<close> answers 400
  with a report that has no error at the root and names exactly the fields of the
  schema whose value the validator refused, all of them, and the database is left as
  it was; so does \<open>PUT\<close> when the identifier is well-formed; and so do the two routes
  once the gate has let the request through.
\<close>

theorem validation_report_names_every_invalid_field:
  "((\<exists>err. parse rt (Schema rt r) (JObj kvs) = Thrown err)
      \<longleftrightarrow> r = anime \<and> (\<exists>k \<in> set [''releaseYear'', ''rating'', ''episodes''].
                          Number rt (map_of kvs k) = None))
   \<and> (req_body req = JObj kvs \<and> req_is_json req
        \<and> invalid_fields rt (Schema rt r) (map_of kvs) \<noteq> []
        \<and> (r = anime \<longrightarrow> (\<forall>k \<in> set [''releaseYear'', ''rating'', ''episodes''].
                               Number rt (map_of kvs k) \<noteq> None))
      \<longrightarrow> (\<exists>g. formErrors g = []
             \<and> fst ` set (fieldErrors g) = Key ` set (invalid_fields rt (Schema rt r) (map_of kvs))
             \<and> post_handler rt r now fresh req m data = (Inr (send 400 (validation_error g)), data)
             \<and> (hex24 (req_params_id req) \<longrightarrow>
                  put_handler rt r now req m data = (Inr (send 400 (validation_error g)), data))
             \<and> (gate lib e req = Inr req \<longrightarrow>
                  POST lib e rt r now fresh req m data = (send 400 (validation_error g), data)
                \<and> (hex24 (req_params_id req) \<longrightarrow>
                     PUT lib e rt r now req m data = (send 400 (validation_error g), data)))))"
proof -
  have throws: "(\<exists>err. parse rt (Schema rt r) (JObj kvs) = Thrown err)
      \<longleftrightarrow> r = anime \<and> (\<exists>k \<in> set [''releaseYear'', ''rating'', ''episodes''].
                          Number rt (map_of kvs k) = None)"
  proof (cases "r = anime")
    case True
    with anime_throws_iff[of rt kvs] show ?thesis by (simp add: Schema_def)
  next
    case False
    with parse_no_throw[of r rt "JObj kvs"] show ?thesis by blast
  qed
  have report: "\<exists>g. formErrors g = []
             \<and> fst ` set (fieldErrors g) = Key ` set (invalid_fields rt (Schema rt r) (map_of kvs))
             \<and> post_handler rt r now fresh req m data = (Inr (send 400 (validation_error g)), data)
             \<and> (hex24 (req_params_id req) \<longrightarrow>
                  put_handler rt r now req m data = (Inr (send 400 (validation_error g)), data))
             \<and> (gate lib e req = Inr req \<longrightarrow>
                  POST lib e rt r now fresh req m data = (send 400 (validation_error g), data)
                \<and> (hex24 (req_params_id req) \<longrightarrow>
                     PUT lib e rt r now req m data = (send 400 (validation_error g), data)))"
    if body: "req_body req = JObj kvs" and json: "req_is_json req"
      and invalid: "invalid_fields rt (Schema rt r) (map_of kvs) \<noteq> []"
      and completes: "r = anime \<longrightarrow> (\<forall>k \<in> set [''releaseYear'', ''rating'', ''episodes''].
                               Number rt (map_of kvs k) \<noteq> None)"
  proof -
    from throws completes have "\<And>err. parse rt (Schema rt r) (JObj kvs) \<noteq> Thrown err"
      by blast
    from parse_invalid_is_ZodError[OF invalid this]
    obtain iss where z: "parse rt (Schema rt r) (JObj kvs) = ZodError iss" by blast
    note names = parse_ZodError_report[OF z]
    have post: "post_handler rt r now fresh req m data
        = (Inr (send 400 (validation_error (flatten iss))), data)"
      using body json z by (simp add: post_handler_def)
    have put: "put_handler rt r now req m data
        = (Inr (send 400 (validation_error (flatten iss))), data)"
      if "hex24 (req_params_id req)"
      using body json z parseId_cases(1)[OF that, of r] by (simp add: put_handler_def)
    have POST: "POST lib e rt r now fresh req m data
        = (send 400 (validation_error (flatten iss)), data)"
      if "gate lib e req = Inr req"
      using that post by (simp add: POST_def respond_def)
    have PUT: "PUT lib e rt r now req m data
        = (send 400 (validation_error (flatten iss)), data)"
      if "gate lib e req = Inr req" "hex24 (req_params_id req)"
      using that(1) put[OF that(2)] by (simp add: PUT_def respond_def)
    from names post put POST PUT show ?thesis by blast
  qed
  from throws report show ?thesis by blast
qed

text \<open>
  C5 does not hold as first stated, with the report in the 400 response of every
  payload that is invalid in several fields. \<open>PUT\<close> parses the identifier before it
  validates the body: with a malformed identifier its 400 response carries the
  message \<open>Invalid id\<close> and no report, whatever the body. And an anime payload whose
  \<open>releaseYear\<close> is an object with a key \<open>toString\<close> makes \<open>Number\<close> throw inside
  \<open>z.coerce.number()\<close>: the error is not a \<open>ZodError\<close>, the handler passes it to
  \<open>next\<close>, and the answer is 500 with no report, although three other fields of the
  payload are invalid.
\<close>

theorem no_validation_report_on_malformed_id_or_thrown_coercion:
  "invalid_fields node_2025 (Schema node_2025 anime)
      (map_of [(''title'', JStr ''  ''), (''genres'', JArr []), (''releaseYear'', JStr ''1800'')])
     = [''title'', ''genres'', ''releaseYear'', ''status'']
   \<and> PUT open_gate no_env node_2025 anime 0 (json_request ''not-an-id'' bad_anime) connected
        empty_database
     = (\<lparr>res_status = 400, res_location = None, res_body = message_only ''Invalid id''\<rparr>,
        empty_database)
   \<and> invalid_fields node_2025 (Schema node_2025 anime)
      (map_of [(''title'', JStr ''''), (''genres'', JArr []),
               (''releaseYear'', JObj [(''toString'', JNum (Fin 1))])])
     = [''title'', ''genres'', ''status'']
   \<and> POST open_gate no_env node_2025 anime 0 (ObjectId id1) (json_request [] unconvertible_anime)
        connected empty_database
     = (\<lparr>res_status = 500, res_location = None,
         res_body = message_only ''Internal Server Error''\<rparr>, empty_database)
   \<and> PUT open_gate no_env node_2025 anime 0 (json_request id1 unconvertible_anime) connected
        empty_database
     = (\<lparr>res_status = 500, res_location = None,
         res_body = message_only ''Internal Server Error''\<rparr>, empty_database)"
proof -
  have bad_id: "PUT open_gate no_env node_2025 anime 0 (json_request ''not-an-id'' bad_anime)
        connected empty_database
     = (\<lparr>res_status = 400, res_location = None, res_body = message_only ''Invalid id''\<rparr>,
        empty_database)"
    by (simp add: PUT_def open_gate_passes put_handler_def json_request_def
        parseId_cases(2)[OF not_an_id] respond_def error_handler_def invalid_id_message_def)
  have post: "POST open_gate no_env node_2025 anime 0 (ObjectId id1)
        (json_request [] unconvertible_anime) connected empty_database
     = (\<lparr>res_status = 500, res_location = None,
         res_body = message_only ''Internal Server Error''\<rparr>, empty_database)"
    by (simp add: POST_def open_gate_passes post_handler_def json_request_def
        parse_unconvertible_anime respond_def error_handler_def TypeError_def)
  have put: "PUT open_gate no_env node_2025 anime 0 (json_request id1 unconvertible_anime)
        connected empty_database
     = (\<lparr>res_status = 500, res_location = None,
         res_body = message_only ''Internal Server Error''\<rparr>, empty_database)"
    by (simp add: PUT_def open_gate_passes put_handler_def json_request_def parseId_id1
        parse_unconvertible_anime respond_def error_handler_def TypeError_def)
  from invalid_bad_anime bad_id invalid_unconvertible_anime post put show ?thesis
    by (intro conjI)
qed

theorem validation_report_names_every_invalid_field_witness:
  "req_body (json_request id1 bad_anime)
      = JObj [(''title'', JStr ''  ''), (''genres'', JArr []), (''releaseYear'', JStr ''1800'')]
   \<and> req_is_json (json_request id1 bad_anime)
   \<and> Number node_2025 (Some (JStr ''1800'')) = Some (Fin 1800)
   \<and> hex24 id1
   \<and> POST open_gate no_env node_2025 anime 0 (ObjectId id1) (json_request id1 bad_anime) connected
        empty_database
     = (send 400 (validation_error
          \<lparr>formErrors = [],
           fieldErrors = [(Key ''title'', [too_small]), (Key ''genres'', [too_small]),
                          (Key ''releaseYear'', [too_small]), (Key ''status'', [invalid_type])]\<rparr>),
        empty_database)
   \<and> PUT open_gate no_env node_2025 anime 0 (json_request id1 bad_anime) connected empty_database
     = (send 400 (validation_error
          \<lparr>formErrors = [],
           fieldErrors = [(Key ''title'', [too_small]), (Key ''genres'', [too_small]),
                          (Key ''releaseYear'', [too_small]), (Key ''status'', [invalid_type])]\<rparr>),
        empty_database)
   \<and> fst ` set [(Key ''title'', [too_small]), (Key ''genres'', [too_small]),
                 (Key ''releaseYear'', [too_small]), (Key ''status'', [invalid_type])]
     = Key ` set [''title'', ''genres'', ''releaseYear'', ''status'']"
proof -
  let ?kvs = "[(''title'', JStr ''  ''), (''genres'', JArr []), (''releaseYear'', JStr ''1800'')]"
  let ?req = "json_request id1 bad_anime"
  let ?f = "\<lparr>formErrors = [],
           fieldErrors = [(Key ''title'', [too_small]), (Key ''genres'', [too_small]),
                          (Key ''releaseYear'', [too_small]), (Key ''status'', [invalid_type])]\<rparr>"
  have body: "req_body ?req = JObj ?kvs"
    by (simp add: json_request_def bad_anime_def)
  have json: "req_is_json ?req"
    by (simp add: json_request_def)
  have year: "Number node_2025 (Some (JStr ''1800'')) = Some (Fin 1800)"
    by (simp add: node_2025_def decimal_def isDigit_def)
  have completes: "anime = anime \<longrightarrow> (\<forall>k \<in> set [''releaseYear'', ''rating'', ''episodes''].
      Number node_2025 (map_of ?kvs k) \<noteq> None)"
    by (simp add: year)
  have invalid: "invalid_fields node_2025 (Schema node_2025 anime) (map_of ?kvs) \<noteq> []"
    unfolding invalid_bad_anime by simp
  have id: "hex24 (req_params_id ?req)"
    by (simp add: json_request_def id1_def hex24_examples)
  have run: "post_handler node_2025 anime 0 (ObjectId id1) ?req connected empty_database
      = (Inr (send 400 (validation_error ?f)), empty_database)"
    by (simp add: post_handler_def json_request_def parse_bad_anime flatten_def)
  from validation_report_names_every_invalid_field[of node_2025 anime ?kvs ?req 0 "ObjectId id1"
      connected empty_database open_gate no_env]
    body json invalid completes id open_gate_passes[of ?req]
  obtain g where g: "formErrors g = []"
      "fst ` set (fieldErrors g) = Key ` set (invalid_fields node_2025 (Schema node_2025 anime) (map_of ?kvs))"
      "post_handler node_2025 anime 0 (ObjectId id1) ?req connected empty_database
        = (Inr (send 400 (validation_error g)), empty_database)"
      "POST open_gate no_env node_2025 anime 0 (ObjectId id1) ?req connected empty_database
        = (send 400 (validation_error g), empty_database)"
      "PUT open_gate no_env node_2025 anime 0 ?req connected empty_database
        = (send 400 (validation_error g), empty_database)"
    by blast
  from g(3) run have "g = ?f" by (simp add: send_def)
  with g(4,5) body json year id show ?thesis
    by (simp add: json_request_def)
qed

subsection \<open>The content type comes first\<close>

text \<open>
  C6. A \<open>POST\<close> or \<open>PUT\<close> handler given a request whose Content-Type is not
  \<open>application/json\<close> answers 415 whatever the identifier and the body are, and
  leaves the database as it was; the route as a whole, gate included, then never
  answers with a validation report and never writes.
\<close>

theorem non_json_write_answers_415_first:
  "\<not> req_is_json req \<Longrightarrow>
     post_handler rt r now fresh req m data
       = (Inr (send 415 (message_only ''Content-Type must be application/json'')), data)
   \<and> put_handler rt r now req m data
       = (Inr (send 415 (message_only ''Content-Type must be application/json'')), data)
   \<and> snd (POST lib e rt r now fresh req m data) = data
   \<and> snd (PUT lib e rt r now req m data) = data
   \<and> (\<forall>f. res_body (fst (POST lib e rt r now fresh req m data)) \<noteq> validation_error f)
   \<and> (\<forall>f. res_body (fst (PUT lib e rt r now req m data)) \<noteq> validation_error f)"
proof -
  assume nj: "\<not> req_is_json req"
  have p: "post_handler rt r now fresh req m data
       = (Inr (send 415 (message_only ''Content-Type must be application/json'')), data)"
    using nj by (simp add: post_handler_def)
  have q: "put_handler rt r now req m data
       = (Inr (send 415 (message_only ''Content-Type must be application/json'')), data)"
    using nj by (simp add: put_handler_def)
  from gate_cases[of lib e req] have
    "snd (POST lib e rt r now fresh req m data) = data
      \<and> (\<forall>f. res_body (fst (POST lib e rt r now fresh req m data)) \<noteq> validation_error f)"
  proof
    assume "gate lib e req = Inr req"
    then show ?thesis by (simp add: POST_def p respond_def send_def)
  next
    assume "\<exists>err. gate lib e req = Inl err"
    then show ?thesis by (auto simp: POST_def error_handler_body)
  qed
  moreover from gate_cases[of lib e req] have
    "snd (PUT lib e rt r now req m data) = data
      \<and> (\<forall>f. res_body (fst (PUT lib e rt r now req m data)) \<noteq> validation_error f)"
  proof
    assume "gate lib e req = Inr req"
    then show ?thesis by (simp add: PUT_def q respond_def send_def)
  next
    assume "\<exists>err. gate lib e req = Inl err"
    then show ?thesis by (auto simp: PUT_def error_handler_body)
  qed
  ultimately show ?thesis using p q by blast
qed

theorem non_json_write_answers_415_first_witness:
  "\<not> req_is_json (text_request id1 bebop)
   \<and> post_handler node_2025 anime 0 (ObjectId id1) (text_request id1 bebop) connected empty_database
       = (Inr (send 415 (message_only ''Content-Type must be application/json'')), empty_database)
   \<and> put_handler node_2025 anime 0 (text_request id1 bebop) connected empty_database
       = (Inr (send 415 (message_only ''Content-Type must be application/json'')), empty_database)
   \<and> snd (PUT open_gate no_env node_2025 anime 0 (text_request id1 bebop) connected empty_database)
       = empty_database"
proof -
  have "\<not> req_is_json (text_request id1 bebop)"
    by (simp add: text_request_def)
  from this non_json_write_answers_415_first[OF this, of node_2025 anime 0 "ObjectId id1" connected empty_database open_gate no_env]
  show ?thesis by simp
qed

subsection \<open>The gate\<close>

text \<open>
  C7. The environment read at load time decides the gate. \<open>jwtCheck\<close> and
  \<open>needWrite\<close> are \<open>noop\<close> exactly when the audience or both the issuer and the
  domain are missing, or \<open>AUTH_DISABLE\<close> is "true" in any case of letters; then
  every request passes both unchanged. Otherwise \<open>jwtCheck\<close> is the library's token
  check for the configured audience and issuer, \<open>needWrite\<close> its scope check for
  \<open>write:library\<close>, and the library's verdict on the request decides.
\<close>

theorem gate_mode_fixed_by_configuration:
  "(jwtCheck e = noop \<longleftrightarrow> \<not> hasAuthConfig e \<or> AUTH_DISABLED e)
   \<and> (needWrite e = noop \<longleftrightarrow> \<not> hasAuthConfig e \<or> AUTH_DISABLED e)
   \<and> (\<not> hasAuthConfig e \<or> AUTH_DISABLED e \<longrightarrow>
        run_middleware lib (jwtCheck e) req = Inr req
      \<and> run_middleware lib (needWrite e) req = Inr req
      \<and> gate lib e req = Inr req)
   \<and> (hasAuthConfig e \<and> \<not> AUTH_DISABLED e \<longrightarrow>
        jwtCheck e = auth (e ''AUTH0_AUDIENCE'') (ISSUER_BASE_URL e) ''RS256''
      \<and> needWrite e = requiredScopes ''write:library''
      \<and> run_middleware lib (jwtCheck e) req
          = (case lib (auth (e ''AUTH0_AUDIENCE'') (ISSUER_BASE_URL e) ''RS256'') req of
               None \<Rightarrow> Inr req | Some err \<Rightarrow> Inl err)
      \<and> run_middleware lib (needWrite e) req
          = (case lib (requiredScopes ''write:library'') req of
               None \<Rightarrow> Inr req | Some err \<Rightarrow> Inl err))"
proof -
  have modes: "jwtCheck e = noop \<longleftrightarrow> \<not> hasAuthConfig e \<or> AUTH_DISABLED e"
      "needWrite e = noop \<longleftrightarrow> \<not> hasAuthConfig e \<or> AUTH_DISABLED e"
    by (simp_all add: jwtCheck_def needWrite_def reqScopes_def)
  have through: "run_middleware lib (jwtCheck e) req = Inr req
      \<and> run_middleware lib (needWrite e) req = Inr req \<and> gate lib e req = Inr req"
    if "\<not> hasAuthConfig e \<or> AUTH_DISABLED e"
    using that modes by (auto simp: gate_def run_middleware_def)
  have enforced: "jwtCheck e = auth (e ''AUTH0_AUDIENCE'') (ISSUER_BASE_URL e) ''RS256''
      \<and> needWrite e = requiredScopes ''write:library''
      \<and> run_middleware lib (jwtCheck e) req
          = (case lib (auth (e ''AUTH0_AUDIENCE'') (ISSUER_BASE_URL e) ''RS256'') req of
               None \<Rightarrow> Inr req | Some err \<Rightarrow> Inl err)
      \<and> run_middleware lib (needWrite e) req
          = (case lib (requiredScopes ''write:library'') req of
               None \<Rightarrow> Inr req | Some err \<Rightarrow> Inl err)"
    if "hasAuthConfig e \<and> \<not> AUTH_DISABLED e"
    using that by (simp add: jwtCheck_def needWrite_def reqScopes_def run_middleware_def)
  from modes through enforced show ?thesis
    by blast
qed

theorem gate_mode_fixed_by_configuration_witness:
  "jwtCheck no_env = noop \<and> needWrite no_env = noop
   \<and> gate open_gate no_env (json_request id1 bebop) = Inr (json_request id1 bebop)
   \<and> jwtCheck auth0_env
       = auth (Some ''https://api.example'') (Some ''https://tenant.auth0.com'') ''RS256''
   \<and> needWrite auth0_env = requiredScopes ''write:library''
   \<and> jwtCheck (auth0_env(''AUTH_DISABLE'' \<mapsto> ''TRUE'')) = noop
   \<and> needWrite (auth0_env(''AUTH_DISABLE'' \<mapsto> ''TRUE'')) = noop"
proof -
  have none: "\<not> hasAuthConfig no_env"
    by (simp add: hasAuthConfig_def no_env_def truthy_def)
  have conf: "hasAuthConfig auth0_env" "\<not> AUTH_DISABLED auth0_env"
      "ISSUER_BASE_URL auth0_env = Some ''https://tenant.auth0.com''"
      "auth0_env ''AUTH0_AUDIENCE'' = Some ''https://api.example''"
    by (simp_all add: hasAuthConfig_def AUTH_DISABLED_def ISSUER_BASE_URL_def auth0_env_def
        truthy_def toLowerCase_def)
  have off: "AUTH_DISABLED (auth0_env(''AUTH_DISABLE'' \<mapsto> ''TRUE''))"
    by (simp add: AUTH_DISABLED_def lower_TRUE)
  from none conf off
    gate_mode_fixed_by_configuration[of no_env open_gate "json_request id1 bebop"]
    gate_mode_fixed_by_configuration[of auth0_env open_gate "json_request id1 bebop"]
    gate_mode_fixed_by_configuration[of "auth0_env(''AUTH_DISABLE'' \<mapsto> ''TRUE'')" open_gate "json_request id1 bebop"]
  show ?thesis by simp
qed

subsection \<open>Defaults\<close>

text \<open>
  C8. A watch-list payload without \<open>status\<close> is validated exactly as the same payload
  with the status "planned"; whenever it is accepted its output has that status; it
  is accepted when \<open>userId\<close>, \<open>kind\<close>, \<open>refId\<close> and \<open>notes\<close> are valid; and the
  document a successful \<open>POST\<close> stores for it has that status. The same holds of a
  user payload without \<open>role\<close> and the role "user".
\<close>

theorem absent_status_and_role_take_their_defaults:
  "(map_of kvs ''status'' = None \<longrightarrow>
      parse rt WatchItemSchema (JObj kvs)
        = parse rt WatchItemSchema (JObj ((''status'', JStr ''planned'') # kvs))
    \<and> (\<forall>out. parse rt WatchItemSchema (JObj kvs) = Parsed out
          \<longrightarrow> map_of out ''status'' = Some (JStr ''planned''))
    \<and> (map_of kvs ''userId'' = Some (JStr u) \<and> hex24 u
        \<and> map_of kvs ''kind'' = Some (JStr k) \<and> (k = ''anime'' \<or> k = ''manga'')
        \<and> map_of kvs ''refId'' = Some (JStr f) \<and> hex24 f
        \<and> (map_of kvs ''notes'' = None
            \<or> (\<exists>n. map_of kvs ''notes'' = Some (JStr n) \<and> length n \<le> 500))
       \<longrightarrow> parse rt WatchItemSchema (JObj kvs)
            = Parsed ([(''userId'', JStr u), (''kind'', JStr k), (''refId'', JStr f),
                       (''status'', JStr ''planned'')]
                      @ (case map_of kvs ''notes'' of None \<Rightarrow> [] | Some v \<Rightarrow> [(''notes'', v)])))
    \<and> (req_body req = JObj kvs
        \<and> post_handler rt watchlists now fresh req m data = (Inr res, data')
        \<and> res_status res = 201
       \<longrightarrow> (\<exists>d. data' ''watchlists'' fresh = Some d
              \<and> map_of d ''status'' = Some (JStr ''planned''))))
   \<and> (map_of kvs ''role'' = None \<longrightarrow>
      parse rt UserSchema (JObj kvs) = parse rt UserSchema (JObj ((''role'', JStr ''user'') # kvs))
    \<and> (\<forall>out. parse rt UserSchema (JObj kvs) = Parsed out
          \<longrightarrow> map_of out ''role'' = Some (JStr ''user''))
    \<and> (map_of kvs ''email'' = Some (JStr a) \<and> isEmail rt a
        \<and> map_of kvs ''displayName'' = Some (JStr n) \<and> n \<noteq> []
       \<longrightarrow> parse rt UserSchema (JObj kvs)
            = Parsed [(''email'', JStr a), (''displayName'', JStr n), (''role'', JStr ''user'')])
    \<and> (req_body req = JObj kvs
        \<and> post_handler rt users now fresh req m data = (Inr res, data')
        \<and> res_status res = 201
       \<longrightarrow> (\<exists>d. data' ''users'' fresh = Some d \<and> map_of d ''role'' = Some (JStr ''user''))))"
proof -
  have w_stored: "\<exists>d. data' ''watchlists'' fresh = Some d
              \<and> map_of d ''status'' = Some (JStr ''planned'')"
    if "map_of kvs ''status'' = None" "req_body req = JObj kvs"
      "post_handler rt watchlists now fresh req m data = (Inr res, data')" "res_status res = 201"
  proof -
    from stored_lookup[OF that(3,4), of "''status''"] that(2) obtain parsed d where
      "parse rt WatchItemSchema (JObj kvs) = Parsed parsed"
      "data' ''watchlists'' fresh = Some d" "map_of d ''status'' = map_of parsed ''status''"
      by (auto simp: Schema_def collection_def)
    with watch_status_out[OF that(1)] show ?thesis by auto
  qed
  have u_stored: "\<exists>d. data' ''users'' fresh = Some d \<and> map_of d ''role'' = Some (JStr ''user'')"
    if "map_of kvs ''role'' = None" "req_body req = JObj kvs"
      "post_handler rt users now fresh req m data = (Inr res, data')" "res_status res = 201"
  proof -
    from stored_lookup[OF that(3,4), of "''role''"] that(2) obtain parsed d where
      "parse rt UserSchema (JObj kvs) = Parsed parsed"
      "data' ''users'' fresh = Some d" "map_of d ''role'' = map_of parsed ''role''"
      by (auto simp: Schema_def collection_def)
    with user_role_out[OF that(1)] show ?thesis by auto
  qed
  have w1: "parse rt WatchItemSchema (JObj kvs)
        = parse rt WatchItemSchema (JObj ((''status'', JStr ''planned'') # kvs))"
    if "map_of kvs ''status'' = None"
    using watch_default[OF that, of rt] by simp
  have w2: "\<forall>out. parse rt WatchItemSchema (JObj kvs) = Parsed out
          \<longrightarrow> map_of out ''status'' = Some (JStr ''planned'')"
    if "map_of kvs ''status'' = None"
    using watch_status_out[OF that] by blast
  have w3: "map_of kvs ''userId'' = Some (JStr u) \<and> hex24 u
        \<and> map_of kvs ''kind'' = Some (JStr k) \<and> (k = ''anime'' \<or> k = ''manga'')
        \<and> map_of kvs ''refId'' = Some (JStr f) \<and> hex24 f
        \<and> (map_of kvs ''notes'' = None
            \<or> (\<exists>n. map_of kvs ''notes'' = Some (JStr n) \<and> length n \<le> 500))
       \<longrightarrow> parse rt WatchItemSchema (JObj kvs)
            = Parsed ([(''userId'', JStr u), (''kind'', JStr k), (''refId'', JStr f),
                       (''status'', JStr ''planned'')]
                      @ (case map_of kvs ''notes'' of None \<Rightarrow> [] | Some v \<Rightarrow> [(''notes'', v)]))"
    if "map_of kvs ''status'' = None"
    using watch_accepts[OF that, of u k f rt] by blast
  have u1: "parse rt UserSchema (JObj kvs)
      = parse rt UserSchema (JObj ((''role'', JStr ''user'') # kvs))"
    if "map_of kvs ''role'' = None"
    using user_default[OF that, of rt] by simp
  have u2: "\<forall>out. parse rt UserSchema (JObj kvs) = Parsed out
          \<longrightarrow> map_of out ''role'' = Some (JStr ''user'')"
    if "map_of kvs ''role'' = None"
    using user_role_out[OF that] by blast
  have u3: "map_of kvs ''email'' = Some (JStr a) \<and> isEmail rt a
        \<and> map_of kvs ''displayName'' = Some (JStr n) \<and> n \<noteq> []
       \<longrightarrow> parse rt UserSchema (JObj kvs)
            = Parsed [(''email'', JStr a), (''displayName'', JStr n), (''role'', JStr ''user'')]"
    if "map_of kvs ''role'' = None"
    using user_accepts[OF that, of a rt n] by blast
  show ?thesis
    using w1 w2 w3 w_stored u1 u2 u3 u_stored by (intro conjI impI) blast+
qed

theorem absent_status_and_role_witness:
  "parse node_2025 WatchItemSchema watch_item
     = Parsed [(''userId'', JStr ''6640a2f2d7b3c1a9f0a11223''), (''kind'', JStr ''anime''),
               (''refId'', JStr ''665f6a0f2c3d4b1a9f0a1234''), (''status'', JStr ''planned'')]
   \<and> post_handler node_2025 watchlists 1000 (ObjectId id1) (json_request [] watch_item) connected
        empty_database
     = (Inr \<lparr>res_status = 201, res_location = Some ''/watchlists/665f6a0f2c3d4b1a9f0a1234'',
            res_body = created_id ''665f6a0f2c3d4b1a9f0a1234''\<rparr>,
        empty_database(''watchlists'' := [ObjectId id1 \<mapsto>
          [(''userId'', JStr ''6640a2f2d7b3c1a9f0a11223''), (''kind'', JStr ''anime''),
           (''refId'', JStr ''665f6a0f2c3d4b1a9f0a1234''), (''status'', JStr ''planned''),
           (''createdAt'', JDate 1000), (''updatedAt'', JDate 1000)]]))
   \<and> parse node_2025 UserSchema demo_user
     = Parsed [(''email'', JStr ''demo@example.com''), (''displayName'', JStr ''Demo User''),
               (''role'', JStr ''user'')]"
proof -
  let ?w = "[(''userId'', JStr ''6640a2f2d7b3c1a9f0a11223''), (''kind'', JStr ''anime''),
             (''refId'', JStr ''665f6a0f2c3d4b1a9f0a1234'')]"
  let ?u = "[(''email'', JStr ''demo@example.com''), (''displayName'', JStr ''Demo User'')]"
  have b: "watch_item = JObj ?w" "demo_user = JObj ?u"
    by (simp_all add: watch_item_def demo_user_def)
  have e: "isEmail node_2025 ''demo@example.com''"
    by (simp add: node_2025_def)
  have absent: "map_of ?w ''status'' = None" "map_of ?u ''role'' = None"
    by simp_all
  let ?req = "json_request [] watch_item"
  let ?res = "\<lparr>res_status = 201, res_location = Some ''/watchlists/665f6a0f2c3d4b1a9f0a1234'',
            res_body = created_id ''665f6a0f2c3d4b1a9f0a1234''\<rparr>"
  note W = absent_status_and_role_take_their_defaults
      [of ?w node_2025 "''6640a2f2d7b3c1a9f0a11223''" "''anime''" "''665f6a0f2c3d4b1a9f0a1234''"
          ?req 1000 "ObjectId id1" connected empty_database ?res empty_database
          "''demo@example.com''" "''Demo User''"]
  note U = absent_status_and_role_take_their_defaults
      [of ?u node_2025 "''6640a2f2d7b3c1a9f0a11223''" "''anime''" "''665f6a0f2c3d4b1a9f0a1234''"
          ?req 1000 "ObjectId id1" connected empty_database ?res empty_database
          "''demo@example.com''" "''Demo User''"]
  have hw: "map_of ?w ''userId'' = Some (JStr ''6640a2f2d7b3c1a9f0a11223'')
        \<and> hex24 ''6640a2f2d7b3c1a9f0a11223''
        \<and> map_of ?w ''kind'' = Some (JStr ''anime'') \<and> (''anime'' = ''anime'' \<or> ''anime'' = ''manga'')
        \<and> map_of ?w ''refId'' = Some (JStr ''665f6a0f2c3d4b1a9f0a1234'')
        \<and> hex24 ''665f6a0f2c3d4b1a9f0a1234''
        \<and> (map_of ?w ''notes'' = None
            \<or> (\<exists>n. map_of ?w ''notes'' = Some (JStr n) \<and> length n \<le> 500))"
    using hex24_examples by simp
  have hu: "map_of ?u ''email'' = Some (JStr ''demo@example.com'')
        \<and> isEmail node_2025 ''demo@example.com''
        \<and> map_of ?u ''displayName'' = Some (JStr ''Demo User'') \<and> ''Demo User'' \<noteq> []"
    using e by simp
  from W absent(1) hw
  have "parse node_2025 WatchItemSchema (JObj ?w)
     = Parsed ([(''userId'', JStr ''6640a2f2d7b3c1a9f0a11223''), (''kind'', JStr ''anime''),
               (''refId'', JStr ''665f6a0f2c3d4b1a9f0a1234''), (''status'', JStr ''planned'')]
              @ (case map_of ?w ''notes'' of None \<Rightarrow> [] | Some v \<Rightarrow> [(''notes'', v)]))"
    by blast
  then have w: "parse node_2025 WatchItemSchema (JObj ?w)
     = Parsed [(''userId'', JStr ''6640a2f2d7b3c1a9f0a11223''), (''kind'', JStr ''anime''),
               (''refId'', JStr ''665f6a0f2c3d4b1a9f0a1234''), (''status'', JStr ''planned'')]"
    by simp
  from U absent(2) hu
  have u: "parse node_2025 UserSchema (JObj ?u)
     = Parsed [(''email'', JStr ''demo@example.com''), (''displayName'', JStr ''Demo User''),
               (''role'', JStr ''user'')]"
    by blast
  from w u b post_watch_item[of node_2025] show ?thesis
    by simp
qed

subsection \<open>The persistence gateway\<close>

text \<open>
  C9. Once \<open>connectToDb\<close> has opened the database, every later call (with an address
  and a name, which the function checks first) returns the handle that is already
  open and leaves the module as it is: no new client, no new connection. A first call
  that the server answers returns a handle that \<open>getDb\<close> then returns. After any run
  of calls on the freshly loaded module, \<open>getDb\<close> returns a handle exactly when some
  call of the run returned that handle, and fails with the not-initialized error when
  no call succeeded. Whatever its arguments, a call on the open module changes
  nothing, and a handle it returns is the open one.
\<close>

theorem connectToDb_idempotent_getDb_iff_connected:
  "(db m = Some h \<longrightarrow> truthy uri \<longrightarrow> truthy dbName \<longrightarrow>
      connectToDb uri dbName answer m = (Inr h, m))
   \<and> (db m = None \<longrightarrow> truthy uri \<longrightarrow> truthy dbName \<longrightarrow>
      (\<exists>h1 m1. connectToDb uri dbName up m = (Inr h1, m1) \<and> getDb m1 = Inr h1))
   \<and> (connect_calls cs not_loaded = (rs, m2) \<longrightarrow>
        (getDb m2 = Inr h2 \<longleftrightarrow> Inr h2 \<in> set rs)
      \<and> ((\<forall>h3. Inr h3 \<notin> set rs) \<longrightarrow>
           getDb m2 = Inl (Error ''DB not initialized. Call connectToDb first.'')))
   \<and> (db m = Some h \<longrightarrow>
        snd (connectToDb uri dbName answer m) = m
      \<and> (\<forall>h4. fst (connectToDb uri dbName answer m) = Inr h4 \<longrightarrow> h4 = h))"
proof -
  have kept: "snd (connectToDb uri dbName answer m) = m
      \<and> (\<forall>h4. fst (connectToDb uri dbName answer m) = Inr h4 \<longrightarrow> h4 = h)"
    if "db m = Some h"
    using connectToDb_keeps_db[OF that, of uri dbName answer
        "fst (connectToDb uri dbName answer m)" "snd (connectToDb uri dbName answer m)"]
    by simp
  have again: "db m = Some h \<longrightarrow> truthy uri \<longrightarrow> truthy dbName \<longrightarrow>
      connectToDb uri dbName answer m = (Inr h, m)"
    using connectToDb_again by blast
  have first: "db m = None \<longrightarrow> truthy uri \<longrightarrow> truthy dbName \<longrightarrow>
      (\<exists>h1 m1. connectToDb uri dbName up m = (Inr h1, m1) \<and> getDb m1 = Inr h1)"
    using connectToDb_first_success by blast
  have runs: "(getDb m2 = Inr h2 \<longleftrightarrow> Inr h2 \<in> set rs)
      \<and> ((\<forall>h3. Inr h3 \<notin> set rs) \<longrightarrow>
           getDb m2 = Inl (Error ''DB not initialized. Call connectToDb first.''))"
    if run: "connect_calls cs not_loaded = (rs, m2)"
  proof -
    have "db not_loaded = None"
      by (simp add: not_loaded_def)
    from connect_calls_closed[OF this run]
    have "\<forall>h. Inr h \<in> set rs \<longleftrightarrow> db m2 = Some h" .
    then show ?thesis
      by (cases "db m2") (auto simp: getDb_def)
  qed
  from again first runs kept show ?thesis
    by blast
qed

theorem connectToDb_idempotent_witness:
  "connectToDb (Some ''mongodb://db.example'') (Some ''library'') up
      \<lparr>client = Some ''mongodb://db.example'',
       db = Some \<lparr>client_uri = ''mongodb://db.example'', databaseName = ''library''\<rparr>,
       connections = [''mongodb://db.example'']\<rparr>
    = (Inr \<lparr>client_uri = ''mongodb://db.example'', databaseName = ''library''\<rparr>,
       \<lparr>client = Some ''mongodb://db.example'',
        db = Some \<lparr>client_uri = ''mongodb://db.example'', databaseName = ''library''\<rparr>,
        connections = [''mongodb://db.example'']\<rparr>)
   \<and> (\<exists>h1 m1. connectToDb (Some ''mongodb://db.example'') (Some ''library'') up not_loaded
          = (Inr h1, m1) \<and> getDb m1 = Inr h1)
   \<and> getDb \<lparr>client = Some ''mongodb://db.example'',
        db = Some \<lparr>client_uri = ''mongodb://db.example'', databaseName = ''library''\<rparr>,
        connections = [''mongodb://db.example'']\<rparr>
      = Inr \<lparr>client_uri = ''mongodb://db.example'', databaseName = ''library''\<rparr>"
proof -
  let ?h = "\<lparr>client_uri = ''mongodb://db.example'', databaseName = ''library''\<rparr>"
  let ?m = "\<lparr>client = Some ''mongodb://db.example'', db = Some ?h,
             connections = [''mongodb://db.example'']\<rparr>"
  let ?cs = "[(Some ''mongodb://db.example'', Some ''library'', up),
              (None, Some ''library'', up),
              (Some ''mongodb://other.example'', Some ''other'', up)]"
  have run: "connect_calls ?cs not_loaded
      = ([Inr ?h, Inl (Error ''MONGODB_URI missing''), Inr ?h], ?m)"
    by (simp add: connectToDb_def not_loaded_def truthy_def Let_def)
  have t: "truthy (Some ''mongodb://db.example'')" "truthy (Some ''library'')"
    by (simp_all add: truthy_def)
  have "db ?m = Some ?h" "db not_loaded = None"
    by (simp_all add: not_loaded_def)
  with t run
    connectToDb_idempotent_getDb_iff_connected
      [of ?m ?h "Some ''mongodb://db.example''" "Some ''library''" up _ _ _ ?h]
    connectToDb_idempotent_getDb_iff_connected
      [of not_loaded _ "Some ''mongodb://db.example''" "Some ''library''" _ ?cs
          "[Inr ?h, Inl (Error ''MONGODB_URI missing''), Inr ?h]" ?m ?h]
  show ?thesis
    by simp
qed

subsection \<open>Unknown fields\<close>

text \<open>
  C10. Keys of the body that the schema does not declare change nothing: the
  validator and both writing handlers treat a body exactly as they treat it with
  those keys removed, so the payload is not rejected for them; and every key of a
  document stored by a successful \<open>POST\<close> or \<open>PUT\<close> is a key of the schema or one of
  the two timestamps.
\<close>

theorem unknown_fields_are_stripped:
  "parse rt (Schema rt r) (JObj (filter (\<lambda>kv. fst kv \<in> fst ` set (Schema rt r)) kvs))
     = parse rt (Schema rt r) (JObj kvs)
   \<and> post_handler rt r now fresh
        (req\<lparr>req_body := JObj (filter (\<lambda>kv. fst kv \<in> fst ` set (Schema rt r)) kvs)\<rparr>) m data
     = post_handler rt r now fresh (req\<lparr>req_body := JObj kvs\<rparr>) m data
   \<and> put_handler rt r now
        (req\<lparr>req_body := JObj (filter (\<lambda>kv. fst kv \<in> fst ` set (Schema rt r)) kvs)\<rparr>) m data
     = put_handler rt r now (req\<lparr>req_body := JObj kvs\<rparr>) m data
   \<and> (post_handler rt r now fresh req m data = (Inr res, data') \<and> res_status res = 201 \<longrightarrow>
        (\<exists>d. data' (collection r) fresh = Some d
           \<and> fst ` set d \<subseteq> fst ` set (Schema rt r) \<union> {''createdAt'', ''updatedAt''}))
   \<and> (put_handler rt r now req m data = (Inr res, data') \<and> res_status res = 204 \<longrightarrow>
        (\<exists>oid d. parseId r (req_params_id req) = Inr oid \<and> data' (collection r) oid = Some d
           \<and> fst ` set d \<subseteq> fst ` set (Schema rt r) \<union> {''createdAt'', ''updatedAt''}))"
proof -
  let ?strip = "filter (\<lambda>kv. fst kv \<in> fst ` set (Schema rt r)) kvs"
  have strip: "parse rt (Schema rt r) (JObj ?strip) = parse rt (Schema rt r) (JObj kvs)"
    by (rule parse_ignores_unknown)
  have post_eq: "post_handler rt r now fresh (req\<lparr>req_body := JObj ?strip\<rparr>) m data
     = post_handler rt r now fresh (req\<lparr>req_body := JObj kvs\<rparr>) m data"
    by (simp add: post_handler_def strip)
  have put_eq: "put_handler rt r now (req\<lparr>req_body := JObj ?strip\<rparr>) m data
     = put_handler rt r now (req\<lparr>req_body := JObj kvs\<rparr>) m data"
    by (cases "parseId r (req_params_id req)") (simp_all add: put_handler_def strip)
  have stored_post: "\<exists>d. data' (collection r) fresh = Some d
           \<and> fst ` set d \<subseteq> fst ` set (Schema rt r) \<union> {''createdAt'', ''updatedAt''}"
    if "post_handler rt r now fresh req m data = (Inr res, data')" "res_status res = 201"
  proof -
    from post_created[OF that] obtain parsed where
      p: "parse rt (Schema rt r) (req_body req) = Parsed parsed"
      and d: "data' = data(collection r := (data (collection r))(fresh \<mapsto> inserted_doc r parsed now))"
      by blast
    from parsed_keys[OF p] have "fst ` set (inserted_doc r parsed now)
        \<subseteq> fst ` set (Schema rt r) \<union> {''createdAt'', ''updatedAt''}"
      by (auto simp: inserted_doc_def assign_keys)
    with d show ?thesis by simp
  qed
  have stored_put: "\<exists>oid d. parseId r (req_params_id req) = Inr oid \<and> data' (collection r) oid = Some d
           \<and> fst ` set d \<subseteq> fst ` set (Schema rt r) \<union> {''createdAt'', ''updatedAt''}"
    if "put_handler rt r now req m data = (Inr res, data')" "res_status res = 204"
  proof -
    from put_replaced[OF that] obtain oid parsed where
      i: "parseId r (req_params_id req) = Inr oid"
      and p: "parse rt (Schema rt r) (req_body req) = Parsed parsed"
      and d: "data' = data(collection r := (data (collection r))(oid \<mapsto> replacement_doc r parsed now))"
      by blast
    from parsed_keys[OF p] have "fst ` set (replacement_doc r parsed now)
        \<subseteq> fst ` set (Schema rt r) \<union> {''createdAt'', ''updatedAt''}"
      by (auto simp: replacement_doc_def assign_keys)
    with i d show ?thesis by simp
  qed
  from strip post_eq put_eq stored_post stored_put show ?thesis by blast
qed

theorem unknown_fields_are_stripped_witness:
  "post_handler node_2025 anime 1000 (ObjectId id1) (json_request [] bebop_extra) connected
      empty_database
     = (Inr \<lparr>res_status = 201, res_location = Some ''/anime/665f6a0f2c3d4b1a9f0a1234'',
            res_body = created_id ''665f6a0f2c3d4b1a9f0a1234''\<rparr>,
        empty_database(''anime'' := [ObjectId id1 \<mapsto>
          [(''title'', JStr ''Cowboy Bebop''), (''genres'', JArr [JStr ''Action'']),
           (''releaseYear'', JNum (Fin 1998)), (''status'', JStr ''finished''),
           (''createdAt'', JDate 1000), (''updatedAt'', JDate 1000)]]))
   \<and> fst ` set [(''title'', JStr ''Cowboy Bebop''), (''genres'', JArr [JStr ''Action'']),
           (''releaseYear'', JNum (Fin 1998)), (''status'', JStr ''finished''),
           (''createdAt'', JDate 1000), (''updatedAt'', JDate 1000)]
       \<subseteq> fst ` set (Schema node_2025 anime) \<union> {''createdAt'', ''updatedAt''}"
proof -
  let ?d = "[(''title'', JStr ''Cowboy Bebop''), (''genres'', JArr [JStr ''Action'']),
           (''releaseYear'', JNum (Fin 1998)), (''status'', JStr ''finished''),
           (''createdAt'', JDate 1000), (''updatedAt'', JDate 1000)]"
  let ?res = "\<lparr>res_status = 201, res_location = Some ''/anime/665f6a0f2c3d4b1a9f0a1234'',
            res_body = created_id ''665f6a0f2c3d4b1a9f0a1234''\<rparr>"
  have run: "post_handler node_2025 anime 1000 (ObjectId id1) (json_request [] bebop_extra)
      connected empty_database
     = (Inr ?res, empty_database(''anime'' := [ObjectId id1 \<mapsto> ?d]))"
    by (simp add: post_handler_def json_request_def parse_bebop_extra getDb_def connected_def
        insertOne_def empty_database_def inserted_doc_def collection_def id1_def)
  from unknown_fields_are_stripped[of node_2025 anime "[]" 1000 "ObjectId id1" "json_request [] bebop_extra" connected
      empty_database ?res "empty_database(''anime'' := [ObjectId id1 \<mapsto> ?d])"] run
  show ?thesis by (simp add: collection_def)
qed

end
